theory Spec2Isabelle
  imports Main "HOL-Library.Word"
begin

unbundle bit_operations_syntax

section \<open>USB Audio-Class descriptor definitions (desc-defs.c)\<close>

text \<open>
  The source file holds the data half of the descriptor dumper: label tables, one field
  table per descriptor kind and Audio-Class protocol, the per-kind arrays that index those
  tables by protocol, and four special rendering functions. The walker that interprets the
  field tables against descriptor bytes is in another file of the repository.
\<close>

subsection \<open>C values\<close>

text \<open>
  A \<^verbatim>\<open>const char *\<close> is a string or \<^verbatim>\<open>NULL\<close> (\<open>None\<close>); an
  \<^verbatim>\<open>unsigned long long\<close> is a 64-bit word and an \<^verbatim>\<open>unsigned int\<close> a 32-bit word.
\<close>

type_synonym cstr = "string option"
type_synonym ull = "64 word"
type_synonym uint = "32 word"

text \<open>
  What C leaves undefined is a value of the model: reading an array at an index that is not
  below its length, printing a \<^verbatim>\<open>NULL\<close> pointer with \<^verbatim>\<open>%s\<close>, and calling a
  \<^verbatim>\<open>NULL\<close> function pointer.
\<close>

datatype fault = Out_of_bounds | Null_string | Null_call

text \<open>\<^verbatim>\<open>#define ARRAY_LEN(a) ((sizeof(a)) / (sizeof(a[0])))\<close>, a \<^verbatim>\<open>size_t\<close>.\<close>

definition ARRAY_LEN :: "'a list \<Rightarrow> ull" where
  "ARRAY_LEN a = of_nat (length a)"

text \<open>The expression \<^verbatim>\<open>a[i]\<close> on a static array.\<close>

definition array_read :: "'a list \<Rightarrow> ull \<Rightarrow> fault + 'a" where
  "array_read a i = (if unat i < length a then Inr (a ! unat i) else Inl Out_of_bounds)"

text \<open>The conversion \<^verbatim>\<open>%s\<close> of \<^verbatim>\<open>printf\<close>.\<close>

definition fmt_s :: "cstr \<Rightarrow> fault + string" where
  "fmt_s p = (case p of None \<Rightarrow> Inl Null_string | Some s \<Rightarrow> Inr s)"

subsection \<open>Label tables\<close>

definition uac1_channel_names :: "cstr list" where
  "uac1_channel_names =
    [Some ''Left Front (L)'', Some ''Right Front (R)'', Some ''Center Front (C)'',
     Some ''Low Frequency Enhancement (LFE)'', Some ''Left Surround (LS)'',
     Some ''Right Surround (RS)'', Some ''Left of Center (LC)'', Some ''Right of Center (RC)'',
     Some ''Surround (S)'', Some ''Side Left (SL)'', Some ''Side Right (SR)'', Some ''Top (T)'']"

definition uac2_channel_names :: "cstr list" where
  "uac2_channel_names =
    [Some ''Front Left (FL)'', Some ''Front Right (FR)'', Some ''Front Center (FC)'',
     Some ''Low Frequency Effects (LFE)'', Some ''Back Left (BL)'', Some ''Back Right (BR)'',
     Some ''Front Left of Center (FLC)'', Some ''Front Right of Center (FRC)'',
     Some ''Back Center (BC)'', Some ''Side Left (SL)'', Some ''Side Right (SR)'',
     Some ''Top Center (TC)'', Some ''Top Front Left (TFL)'', Some ''Top Front Center (TFC)'',
     Some ''Top Front Right (TFR)'', Some ''Top Back Left (TBL)'', Some ''Top Back Center (TBC)'',
     Some ''Top Back Right (TBR)'', Some ''Top Front Left of Center (TFLC)'',
     Some ''Top Front Right of Center (TFRC)'', Some ''Left Low Frequency Effects (LLFE)'',
     Some ''Right Low Frequency Effects (RLFE)'', Some ''Top Side Left (TSL)'',
     Some ''Top Side Right (TSR)'', Some ''Bottom Center (BC)'',
     Some ''Back Left of Center (BLC)'', Some ''Back Right of Center (BRC)'']"

definition uac2_interface_header_bmcontrols :: "cstr list" where
  "uac2_interface_header_bmcontrols = [Some ''Latency control'', None]"

definition uac2_input_term_bmcontrols :: "cstr list" where
  "uac2_input_term_bmcontrols =
    [Some ''Copy Protect'', Some ''Connector'', Some ''Overload'', Some ''Cluster'',
     Some ''Underflow'', Some ''Overflow'', None]"

definition uac2_output_term_bmcontrols :: "cstr list" where
  "uac2_output_term_bmcontrols =
    [Some ''Copy Protect'', Some ''Connector'', Some ''Overload'', Some ''Underflow'',
     Some ''Overflow'', None]"

definition uac2_mixer_unit_bmcontrols :: "cstr list" where
  "uac2_mixer_unit_bmcontrols = [Some ''Cluster'', Some ''Underflow'', Some ''Overflow'', None]"

definition uac2_selector_unit_bmcontrols :: "cstr list" where
  "uac2_selector_unit_bmcontrols = [Some ''Selector'', None]"

definition uac_feature_unit_bmcontrols :: "cstr list" where
  "uac_feature_unit_bmcontrols =
    [Some ''Mute'', Some ''Volume'', Some ''Bass'', Some ''Mid'', Some ''Treble'',
     Some ''Graphic Equalizer'', Some ''Automatic Gain'', Some ''Delay'', Some ''Bass Boost'',
     Some ''Loudness'', Some ''Input gain'', Some ''Input gain pad'', Some ''Phase inverter'',
     None]"

definition uac2_extension_unit_bmcontrols :: "cstr list" where
  "uac2_extension_unit_bmcontrols =
    [Some ''Enable'', Some ''Cluster'', Some ''Underflow'', Some ''Overflow'', None]"

definition uac2_clock_source_bmcontrols :: "cstr list" where
  "uac2_clock_source_bmcontrols = [Some ''Clock Frequency'', Some ''Clock Validity'', None]"

definition uac2_clk_src_bmattr :: "cstr list" where
  "uac2_clk_src_bmattr =
    [Some ''External'', Some ''Internal fixed'', Some ''Internal variable'',
     Some ''Internal programmable'']"

definition uac3_clk_src_bmattr :: "cstr list" where
  "uac3_clk_src_bmattr =
    [Some ''External'', Some ''Internal'', Some ''(asynchronous)'',
     Some ''(synchronized to SOF)'']"

definition uac2_clock_selector_bmcontrols :: "cstr list" where
  "uac2_clock_selector_bmcontrols = [Some ''Clock Selector'', None]"

definition uac2_clock_multiplier_bmcontrols :: "cstr list" where
  "uac2_clock_multiplier_bmcontrols =
    [Some ''Clock Numerator'', Some ''Clock Denominator'', None]"

definition uac2_as_interface_bmcontrols :: "cstr list" where
  "uac2_as_interface_bmcontrols =
    [Some ''Active Alternate Setting'', Some ''Valid Alternate Setting'', None]"

definition UAC_FORMAT_TYPE_I :: ull where "UAC_FORMAT_TYPE_I = 0x0"
definition UAC_FORMAT_TYPE_II :: ull where "UAC_FORMAT_TYPE_II = 0x1"
definition UAC_FORMAT_TYPE_III :: ull where "UAC_FORMAT_TYPE_III = 0x2"

definition audio_data_format_type_i :: "cstr list" where
  "audio_data_format_type_i =
    [Some ''TYPE_I_UNDEFINED'', Some ''PCM'', Some ''PCM8'', Some ''IEEE_FLOAT'',
     Some ''ALAW'', Some ''MULAW'']"

definition audio_data_format_type_ii :: "cstr list" where
  "audio_data_format_type_ii = [Some ''TYPE_II_UNDEFINED'', Some ''MPEG'', Some ''AC-3'']"

definition audio_data_format_type_iii :: "cstr list" where
  "audio_data_format_type_iii =
    [Some ''TYPE_III_UNDEFINED'', Some ''IEC1937_AC-3'', Some ''IEC1937_MPEG-1_Layer1'',
     Some ''IEC1937_MPEG-Layer2/3/NOEXT'', Some ''IEC1937_MPEG-2_EXT'',
     Some ''IEC1937_MPEG-2_Layer1_LS'', Some ''IEC1937_MPEG-2_Layer2/3_LS'']"

definition uac1_as_endpoint_bmattributes :: "cstr list" where
  "uac1_as_endpoint_bmattributes =
    [Some ''Sampling Frequency'', Some ''Pitch'', Some ''Audio Data Format Control'',
     None, None, None, None, Some ''MaxPacketsOnly'']"

definition uac2_as_endpoint_bmattributes :: "cstr list" where
  "uac2_as_endpoint_bmattributes =
    [None, None, None, None, None, None, None, Some ''MaxPacketsOnly'']"

definition uac2_as_isochronous_audio_data_endpoint_bmcontrols :: "cstr list" where
  "uac2_as_isochronous_audio_data_endpoint_bmcontrols =
    [Some ''Pitch'', Some ''Data Overrun'', Some ''Data Underrun'', None]"

definition uac_as_isochronous_audio_data_endpoint_blockdelayunits :: "cstr list" where
  "uac_as_isochronous_audio_data_endpoint_blockdelayunits =
    [Some ''Undefined'', Some ''Milliseconds'', Some ''Decoded PCM samples'', None]"

subsection \<open>Special rendering functions\<close>

text \<open>
  Each function prints to standard output; the model returns the text printed, or the fault
  of the first undefined operation.

  \<^verbatim>\<open>printf(" %s clock %s\n", uac2_clk_src_bmattr[value & 0x3],
         (value & 0x4) ? uac3_clk_src_bmattr[3] : "");\<close>
\<close>

definition desc_snowflake_dump_uac2_clk_src_bmattr :: "ull \<Rightarrow> uint \<Rightarrow> fault + string" where
  "desc_snowflake_dump_uac2_clk_src_bmattr value indent =
    (case array_read uac2_clk_src_bmattr (value AND 0x3) of
       Inl e \<Rightarrow> Inl e
     | Inr a1 \<Rightarrow>
        (case (if value AND 0x4 \<noteq> 0 then array_read uac3_clk_src_bmattr 3 else Inr (Some ''''))
         of Inl e \<Rightarrow> Inl e
          | Inr a2 \<Rightarrow>
             (case fmt_s a1 of
                Inl e \<Rightarrow> Inl e
              | Inr s1 \<Rightarrow>
                 (case fmt_s a2 of
                    Inl e \<Rightarrow> Inl e
                  | Inr s2 \<Rightarrow> Inr ('' '' @ s1 @ '' clock '' @ s2 @ ''\<newline>'')))))"

text \<open>
  The source defines \<^verbatim>\<open>desc_snowflake_dump_uac1_as_interface_wformattag\<close> twice. The first
  definition bounds each range by the type prefix plus \<^verbatim>\<open>ARRAY_LEN\<close> of the table, the
  second by literal constants. Both start from \<^verbatim>\<open>format_string = "undefined"\<close> and end
  with \<^verbatim>\<open>printf(" %s\n", format_string)\<close>.
\<close>

definition desc_snowflake_dump_uac1_as_interface_wformattag_generic ::
    "ull \<Rightarrow> uint \<Rightarrow> fault + string" where
  "desc_snowflake_dump_uac1_as_interface_wformattag_generic value indent =
    (case
       (if value \<le> push_bit 12 UAC_FORMAT_TYPE_I + ARRAY_LEN audio_data_format_type_i
        then array_read audio_data_format_type_i value
        else if value \<ge> push_bit 12 UAC_FORMAT_TYPE_II \<and>
                value \<le> push_bit 12 UAC_FORMAT_TYPE_II + ARRAY_LEN audio_data_format_type_ii
        then array_read audio_data_format_type_ii (value AND 0xfff)
        else if value \<ge> push_bit 12 UAC_FORMAT_TYPE_III \<and>
                value \<le> push_bit 12 UAC_FORMAT_TYPE_III + ARRAY_LEN audio_data_format_type_iii
        then array_read audio_data_format_type_iii (value AND 0xfff)
        else Inr (Some ''undefined''))
     of Inl e \<Rightarrow> Inl e
      | Inr format_string \<Rightarrow>
         (case fmt_s format_string of
            Inl e \<Rightarrow> Inl e
          | Inr s \<Rightarrow> Inr ('' '' @ s @ ''\<newline>'')))"

definition desc_snowflake_dump_uac1_as_interface_wformattag_literal ::
    "ull \<Rightarrow> uint \<Rightarrow> fault + string" where
  "desc_snowflake_dump_uac1_as_interface_wformattag_literal value indent =
    (case
       (if value \<le> 5
        then array_read audio_data_format_type_i value
        else if value \<ge> 0x1000 \<and> value \<le> 0x1002
        then array_read audio_data_format_type_ii (value AND 0xfff)
        else if value \<ge> 0x2000 \<and> value \<le> 0x2006
        then array_read audio_data_format_type_iii (value AND 0xfff)
        else Inr (Some ''undefined''))
     of Inl e \<Rightarrow> Inl e
      | Inr format_string \<Rightarrow>
         (case fmt_s format_string of
            Inl e \<Rightarrow> Inl e
          | Inr s \<Rightarrow> Inr ('' '' @ s @ ''\<newline>'')))"

text \<open>
  \<^verbatim>\<open>printf("\n"); for (i = 0; i < 5; i++) if ((value >> i) & 0x1)
    printf("%*s%s\n", indent * 2, "", audio_data_format_type_i[i + 1]);\<close>
  The loop is a recursion on the counter, which stops at 5. The field width of \<^verbatim>\<open>%*s\<close> is
  an \<^verbatim>\<open>int\<close>, and a negative width pads to its absolute value.
\<close>

function bmformats_loop :: "ull \<Rightarrow> uint \<Rightarrow> nat \<Rightarrow> fault + string" where
  "bmformats_loop value indent i =
    (if i < 5 then
       (if drop_bit i value AND 0x1 \<noteq> 0 then
          (case array_read audio_data_format_type_i (of_nat (i + 1)) of
             Inl e \<Rightarrow> Inl e
           | Inr p \<Rightarrow>
              (case fmt_s p of
                 Inl e \<Rightarrow> Inl e
               | Inr s \<Rightarrow>
                  (case bmformats_loop value indent (i + 1) of
                     Inl e \<Rightarrow> Inl e
                   | Inr rest \<Rightarrow>
                      Inr (replicate (nat \<bar>sint (indent * 2)\<bar>) CHR '' '' @ s @ ''\<newline>'' @ rest))))
        else bmformats_loop value indent (i + 1))
     else Inr [])"
  by pat_completeness auto
termination
  by (relation "measure (\<lambda>(value, indent, i). 5 - i)") auto

definition desc_snowflake_dump_uac2_as_interface_bmformats :: "ull \<Rightarrow> uint \<Rightarrow> fault + string" where
  "desc_snowflake_dump_uac2_as_interface_bmformats value indent =
    (case bmformats_loop value indent 0 of
       Inl e \<Rightarrow> Inl e
     | Inr lines \<Rightarrow> Inr (''\<newline>'' @ lines))"

subsection \<open>Field tables\<close>

text \<open>
  The declaration of \<^verbatim>\<open>struct desc\<close> and of the \<^verbatim>\<open>DESC_*\<close> types is in a header that
  the tables include. The record has the members the initialisers of this file name, with
  the types of the values they are given. A member that a designated initialiser does not
  name is zero: \<open>0\<close>, \<open>False\<close>, \<^verbatim>\<open>NULL\<close>, and the empty list for a table pointer.
\<close>

datatype desc_type =
    DESC_CONSTANT | DESC_NUMBER | DESC_NUMBER_POSTFIX | DESC_BITMAP | DESC_BCD
  | DESC_BMCONTROL_1 | DESC_BMCONTROL_2 | DESC_STR_DESC_INDEX | DESC_TERMINAL_STR
  | DESC_BITMAP_STRINGS | DESC_NUMBER_STRINGS | DESC_SNOWFLAKE

text \<open>The member \<^verbatim>\<open>snowflake\<close> points to one of the special rendering functions.\<close>

datatype snowflake_fn =
    Desc_snowflake_dump_uac2_clk_src_bmattr
  | Desc_snowflake_dump_uac1_as_interface_wformattag
  | Desc_snowflake_dump_uac2_as_interface_bmformats

record desc_bitmap_strings =
  strings :: "cstr list"
  count :: nat

record desc_array =
  array :: bool
  bits :: bool
  length_field1 :: cstr
  length_field2 :: cstr

record desc =
  field :: string
  size_d :: nat
  size_field :: cstr
  type :: desc_type
  bmcontrol :: "cstr list"
  bitmap_strings :: desc_bitmap_strings
  number_strings :: "cstr list"
  number_postfix :: cstr
  snowflake :: "snowflake_fn option"
  array_d :: desc_array

text \<open>
  \<^verbatim>\<open>{ .field = f, .size = s, .type = t }\<close>. A table ends with \<^verbatim>\<open>{ .field = NULL }\<close>, which is
  the end of the list here.
\<close>

definition desc_init :: "string \<Rightarrow> nat \<Rightarrow> desc_type \<Rightarrow> desc" where
  "desc_init f s t =
    \<lparr>field = f, size_d = s, size_field = None, type = t, bmcontrol = [],
     bitmap_strings = \<lparr>strings = [], count = 0\<rparr>, number_strings = [],
     number_postfix = None, snowflake = None,
     array_d = \<lparr>array = False, bits = False, length_field1 = None, length_field2 = None\<rparr>\<rparr>"

text \<open>\<^verbatim>\<open>.array = { .array = true }\<close>\<close>

definition array_open :: desc_array where
  "array_open = \<lparr>array = True, bits = False, length_field1 = None, length_field2 = None\<rparr>"

text \<open>\<^verbatim>\<open>.array = { .array = true, .length_field1 = f1 }\<close>\<close>

definition array_len1 :: "string \<Rightarrow> desc_array" where
  "array_len1 f1 =
    \<lparr>array = True, bits = False, length_field1 = Some f1, length_field2 = None\<rparr>"

text \<open>\<^verbatim>\<open>.array = { .array = true, .bits = true, .length_field1 = f1, .length_field2 = f2 }\<close>\<close>

definition array_bits :: "string \<Rightarrow> string \<Rightarrow> desc_array" where
  "array_bits f1 f2 =
    \<lparr>array = True, bits = True, length_field1 = Some f1, length_field2 = Some f2\<rparr>"

definition desc_audio_1_ac_header :: "desc list" where
  "desc_audio_1_ac_header =
    [desc_init ''bcdADC'' 2 DESC_BCD,
     desc_init ''wTotalLength'' 2 DESC_CONSTANT,
     desc_init ''bInCollection'' 1 DESC_CONSTANT,
     (desc_init ''baInterfaceNr'' 1 DESC_NUMBER)\<lparr>array_d := array_open\<rparr>]"

definition desc_audio_2_ac_header :: "desc list" where
  "desc_audio_2_ac_header =
    [desc_init ''bcdADC'' 2 DESC_BCD,
     desc_init ''bCategory'' 1 DESC_CONSTANT,
     desc_init ''wTotalLength'' 2 DESC_NUMBER,
     (desc_init ''bmControls'' 1 DESC_BMCONTROL_2)
       \<lparr>bmcontrol := uac2_interface_header_bmcontrols\<rparr>]"

definition desc_audio_ac_header :: "desc list option list" where
  "desc_audio_ac_header = [Some desc_audio_1_ac_header, Some desc_audio_2_ac_header, None]"

definition desc_audio_2_ac_effect_unit :: "desc list" where
  "desc_audio_2_ac_effect_unit =
    [desc_init ''bUnitID'' 1 DESC_NUMBER,
     desc_init ''wEffectType'' 2 DESC_CONSTANT,
     desc_init ''bSourceID'' 1 DESC_CONSTANT,
     (desc_init ''bmaControls'' 4 DESC_BITMAP)\<lparr>array_d := array_open\<rparr>,
     desc_init ''iEffects'' 1 DESC_STR_DESC_INDEX]"

definition desc_audio_ac_effect_unit :: "desc list option list" where
  "desc_audio_ac_effect_unit = [None, Some desc_audio_2_ac_effect_unit, None]"

definition desc_audio_1_ac_input_terminal :: "desc list" where
  "desc_audio_1_ac_input_terminal =
    [desc_init ''bTerminalID'' 1 DESC_NUMBER,
     desc_init ''wTerminalType'' 2 DESC_TERMINAL_STR,
     desc_init ''bAssocTerminal'' 1 DESC_CONSTANT,
     desc_init ''bNrChannels'' 1 DESC_NUMBER,
     (desc_init ''wChannelConfig'' 2 DESC_BITMAP_STRINGS)
       \<lparr>bitmap_strings := \<lparr>strings = uac1_channel_names, count = 12\<rparr>\<rparr>,
     desc_init ''iChannelNames'' 1 DESC_STR_DESC_INDEX,
     desc_init ''iTerminal'' 1 DESC_STR_DESC_INDEX]"

definition desc_audio_2_ac_input_terminal :: "desc list" where
  "desc_audio_2_ac_input_terminal =
    [desc_init ''bTerminalID'' 1 DESC_NUMBER,
     desc_init ''wTerminalType'' 2 DESC_TERMINAL_STR,
     desc_init ''bAssocTerminal'' 1 DESC_CONSTANT,
     desc_init ''bCSourceID'' 1 DESC_CONSTANT,
     desc_init ''bNrChannels'' 1 DESC_NUMBER,
     (desc_init ''bmChannelConfig'' 4 DESC_BITMAP_STRINGS)
       \<lparr>bitmap_strings := \<lparr>strings = uac2_channel_names, count = 26\<rparr>\<rparr>,
     desc_init ''iChannelNames'' 1 DESC_STR_DESC_INDEX,
     (desc_init ''bmControls'' 2 DESC_BMCONTROL_2)\<lparr>bmcontrol := uac2_input_term_bmcontrols\<rparr>,
     desc_init ''iTerminal'' 1 DESC_STR_DESC_INDEX]"

definition desc_audio_ac_input_terminal :: "desc list option list" where
  "desc_audio_ac_input_terminal =
    [Some desc_audio_1_ac_input_terminal, Some desc_audio_2_ac_input_terminal, None]"

definition desc_audio_1_ac_output_terminal :: "desc list" where
  "desc_audio_1_ac_output_terminal =
    [desc_init ''bTerminalID'' 1 DESC_NUMBER,
     desc_init ''wTerminalType'' 2 DESC_TERMINAL_STR,
     desc_init ''bAssocTerminal'' 1 DESC_NUMBER,
     desc_init ''bSourceID'' 1 DESC_NUMBER,
     desc_init ''iTerminal'' 1 DESC_STR_DESC_INDEX]"

definition desc_audio_2_ac_output_terminal :: "desc list" where
  "desc_audio_2_ac_output_terminal =
    [desc_init ''bTerminalID'' 1 DESC_NUMBER,
     desc_init ''wTerminalType'' 2 DESC_TERMINAL_STR,
     desc_init ''bAssocTerminal'' 1 DESC_NUMBER,
     desc_init ''bSourceID'' 1 DESC_NUMBER,
     desc_init ''bCSourceID'' 1 DESC_NUMBER,
     (desc_init ''bmControls'' 2 DESC_BMCONTROL_2)\<lparr>bmcontrol := uac2_output_term_bmcontrols\<rparr>,
     desc_init ''iTerminal'' 1 DESC_STR_DESC_INDEX]"

definition desc_audio_ac_output_terminal :: "desc list option list" where
  "desc_audio_ac_output_terminal =
    [Some desc_audio_1_ac_output_terminal, Some desc_audio_2_ac_output_terminal, None]"

definition desc_audio_1_ac_mixer_unit :: "desc list" where
  "desc_audio_1_ac_mixer_unit =
    [desc_init ''bUnitID'' 1 DESC_NUMBER,
     desc_init ''bNrInPins'' 1 DESC_NUMBER,
     (desc_init ''baSourceID'' 1 DESC_NUMBER)\<lparr>array_d := array_len1 ''bNrInPins''\<rparr>,
     desc_init ''bNrChannels'' 1 DESC_NUMBER,
     (desc_init ''wChannelConfig'' 2 DESC_BITMAP_STRINGS)
       \<lparr>bitmap_strings := \<lparr>strings = uac1_channel_names, count = 12\<rparr>\<rparr>,
     desc_init ''iChannelNames'' 1 DESC_STR_DESC_INDEX,
     (desc_init ''bmControls'' 1 DESC_BITMAP)
       \<lparr>array_d := array_bits ''bNrInPins'' ''bNrChannels''\<rparr>,
     desc_init ''iMixer'' 1 DESC_STR_DESC_INDEX]"

definition desc_audio_2_ac_mixer_unit :: "desc list" where
  "desc_audio_2_ac_mixer_unit =
    [desc_init ''bUnitID'' 1 DESC_NUMBER,
     desc_init ''bNrInPins'' 1 DESC_NUMBER,
     (desc_init ''baSourceID'' 1 DESC_NUMBER)\<lparr>array_d := array_len1 ''bNrInPins''\<rparr>,
     desc_init ''bNrChannels'' 1 DESC_NUMBER,
     (desc_init ''bmChannelConfig'' 4 DESC_BITMAP_STRINGS)
       \<lparr>bitmap_strings := \<lparr>strings = uac2_channel_names, count = 26\<rparr>\<rparr>,
     desc_init ''iChannelNames'' 1 DESC_STR_DESC_INDEX,
     (desc_init ''bmMixerControls'' 1 DESC_BITMAP)
       \<lparr>array_d := array_bits ''bNrInPins'' ''bNrChannels''\<rparr>,
     (desc_init ''bmControls'' 1 DESC_BMCONTROL_2)\<lparr>bmcontrol := uac2_mixer_unit_bmcontrols\<rparr>,
     desc_init ''iMixer'' 1 DESC_STR_DESC_INDEX]"

definition desc_audio_ac_mixer_unit :: "desc list option list" where
  "desc_audio_ac_mixer_unit =
    [Some desc_audio_1_ac_mixer_unit, Some desc_audio_2_ac_mixer_unit, None]"

definition desc_audio_1_ac_selector_unit :: "desc list" where
  "desc_audio_1_ac_selector_unit =
    [desc_init ''bUnitID'' 1 DESC_NUMBER,
     desc_init ''bNrInPins'' 1 DESC_NUMBER,
     (desc_init ''baSourceID'' 1 DESC_NUMBER)\<lparr>array_d := array_len1 ''bNrInPins''\<rparr>,
     desc_init ''iSelector'' 1 DESC_STR_DESC_INDEX]"

definition desc_audio_2_ac_selector_unit :: "desc list" where
  "desc_audio_2_ac_selector_unit =
    [desc_init ''bUnitID'' 1 DESC_NUMBER,
     desc_init ''bNrInPins'' 1 DESC_NUMBER,
     (desc_init ''baSourceID'' 1 DESC_NUMBER)\<lparr>array_d := array_len1 ''bNrInPins''\<rparr>,
     (desc_init ''bmControls'' 1 DESC_BMCONTROL_2)
       \<lparr>bmcontrol := uac2_selector_unit_bmcontrols\<rparr>,
     desc_init ''iSelector'' 1 DESC_STR_DESC_INDEX]"

definition desc_audio_ac_selector_unit :: "desc list option list" where
  "desc_audio_ac_selector_unit =
    [Some desc_audio_1_ac_selector_unit, Some desc_audio_2_ac_selector_unit, None]"

definition desc_audio_1_ac_processing_unit :: "desc list" where
  "desc_audio_1_ac_processing_unit =
    [desc_init ''bUnitID'' 1 DESC_NUMBER,
     desc_init ''wProcessType'' 2 DESC_CONSTANT,
     desc_init ''bNrInPins'' 1 DESC_NUMBER,
     (desc_init ''baSourceID'' 1 DESC_NUMBER)\<lparr>array_d := array_len1 ''bNrInPins''\<rparr>,
     desc_init ''bNrChannels'' 1 DESC_NUMBER,
     (desc_init ''wChannelConfig'' 2 DESC_BITMAP_STRINGS)
       \<lparr>bitmap_strings := \<lparr>strings = uac1_channel_names, count = 12\<rparr>\<rparr>,
     desc_init ''iChannelNames'' 1 DESC_STR_DESC_INDEX,
     desc_init ''bControlSize'' 1 DESC_NUMBER,
     (desc_init ''bmControls'' 1 DESC_BITMAP)\<lparr>array_d := array_len1 ''bControlSize''\<rparr>,
     desc_init ''iProcessing'' 1 DESC_STR_DESC_INDEX,
     (desc_init ''Process-specific'' 1 DESC_BITMAP)\<lparr>array_d := array_open\<rparr>]"

definition desc_audio_2_ac_processing_unit :: "desc list" where
  "desc_audio_2_ac_processing_unit =
    [desc_init ''bUnitID'' 1 DESC_NUMBER,
     desc_init ''wProcessType'' 2 DESC_CONSTANT,
     desc_init ''bNrInPins'' 1 DESC_NUMBER,
     (desc_init ''baSourceID'' 1 DESC_NUMBER)\<lparr>array_d := array_len1 ''bNrInPins''\<rparr>,
     desc_init ''bNrChannels'' 1 DESC_NUMBER,
     (desc_init ''bmChannelConfig'' 4 DESC_BITMAP_STRINGS)
       \<lparr>bitmap_strings := \<lparr>strings = uac2_channel_names, count = 26\<rparr>\<rparr>,
     desc_init ''iChannelNames'' 1 DESC_STR_DESC_INDEX,
     desc_init ''bControlSize'' 1 DESC_NUMBER,
     (desc_init ''bmControls'' 2 DESC_BITMAP)\<lparr>array_d := array_len1 ''bControlSize''\<rparr>,
     desc_init ''iProcessing'' 1 DESC_STR_DESC_INDEX,
     (desc_init ''Process-specific'' 1 DESC_BITMAP)\<lparr>array_d := array_open\<rparr>]"

definition desc_audio_ac_processing_unit :: "desc list option list" where
  "desc_audio_ac_processing_unit =
    [Some desc_audio_1_ac_processing_unit, Some desc_audio_2_ac_processing_unit, None]"

definition desc_audio_1_ac_feature_unit :: "desc list" where
  "desc_audio_1_ac_feature_unit =
    [desc_init ''bUnitID'' 1 DESC_NUMBER,
     desc_init ''bSourceID'' 1 DESC_CONSTANT,
     desc_init ''bControlSize'' 1 DESC_NUMBER,
     (desc_init ''bmaControls'' 0 DESC_BMCONTROL_1)
       \<lparr>size_field := Some ''bControlSize'', bmcontrol := uac_feature_unit_bmcontrols,
        array_d := array_open\<rparr>,
     desc_init ''iFeature'' 1 DESC_STR_DESC_INDEX]"

definition desc_audio_2_ac_feature_unit :: "desc list" where
  "desc_audio_2_ac_feature_unit =
    [desc_init ''bUnitID'' 1 DESC_NUMBER,
     desc_init ''bSourceID'' 1 DESC_CONSTANT,
     (desc_init ''bmaControls'' 4 DESC_BMCONTROL_2)
       \<lparr>bmcontrol := uac_feature_unit_bmcontrols, array_d := array_open\<rparr>,
     desc_init ''iFeature'' 1 DESC_STR_DESC_INDEX]"

definition desc_audio_ac_feature_unit :: "desc list option list" where
  "desc_audio_ac_feature_unit =
    [Some desc_audio_1_ac_feature_unit, Some desc_audio_2_ac_feature_unit, None]"

definition desc_audio_1_ac_extension_unit :: "desc list" where
  "desc_audio_1_ac_extension_unit =
    [desc_init ''bUnitID'' 1 DESC_NUMBER,
     desc_init ''wExtensionCode'' 2 DESC_CONSTANT,
     desc_init ''bNrInPins'' 1 DESC_NUMBER,
     (desc_init ''baSourceID'' 1 DESC_NUMBER)\<lparr>array_d := array_len1 ''bNrInPins''\<rparr>,
     desc_init ''bNrChannels'' 1 DESC_NUMBER,
     (desc_init ''wChannelConfig'' 2 DESC_BITMAP_STRINGS)
       \<lparr>bitmap_strings := \<lparr>strings = uac1_channel_names, count = 12\<rparr>\<rparr>,
     desc_init ''iChannelNames'' 1 DESC_STR_DESC_INDEX,
     desc_init ''bControlSize'' 1 DESC_NUMBER,
     (desc_init ''bmControls'' 1 DESC_BITMAP)\<lparr>array_d := array_len1 ''bControlSize''\<rparr>,
     desc_init ''iExtension'' 1 DESC_STR_DESC_INDEX]"

definition desc_audio_2_ac_extension_unit :: "desc list" where
  "desc_audio_2_ac_extension_unit =
    [desc_init ''bUnitID'' 1 DESC_NUMBER,
     desc_init ''wExtensionCode'' 2 DESC_CONSTANT,
     desc_init ''bNrInPins'' 1 DESC_NUMBER,
     (desc_init ''baSourceID'' 1 DESC_NUMBER)\<lparr>array_d := array_len1 ''bNrInPins''\<rparr>,
     desc_init ''bNrChannels'' 1 DESC_NUMBER,
     (desc_init ''bmChannelConfig'' 4 DESC_BITMAP_STRINGS)
       \<lparr>bitmap_strings := \<lparr>strings = uac2_channel_names, count = 26\<rparr>\<rparr>,
     desc_init ''iChannelNames'' 1 DESC_STR_DESC_INDEX,
     (desc_init ''bmControls'' 1 DESC_BMCONTROL_2)
       \<lparr>bmcontrol := uac2_extension_unit_bmcontrols\<rparr>,
     desc_init ''iExtension'' 1 DESC_STR_DESC_INDEX]"

definition desc_audio_ac_extension_unit :: "desc list option list" where
  "desc_audio_ac_extension_unit =
    [Some desc_audio_1_ac_extension_unit, Some desc_audio_2_ac_extension_unit, None]"

definition desc_audio_2_ac_clock_source :: "desc list" where
  "desc_audio_2_ac_clock_source =
    [desc_init ''bClockID'' 1 DESC_CONSTANT,
     (desc_init ''bmAttributes'' 1 DESC_SNOWFLAKE)
       \<lparr>snowflake := Some Desc_snowflake_dump_uac2_clk_src_bmattr\<rparr>,
     (desc_init ''bmControls'' 1 DESC_BMCONTROL_2)
       \<lparr>bmcontrol := uac2_clock_source_bmcontrols\<rparr>,
     desc_init ''bAssocTerminal'' 1 DESC_CONSTANT,
     desc_init ''iClockSource'' 1 DESC_STR_DESC_INDEX]"

definition desc_audio_ac_clock_source :: "desc list option list" where
  "desc_audio_ac_clock_source = [None, Some desc_audio_2_ac_clock_source, None]"

definition desc_audio_2_ac_clock_selector :: "desc list" where
  "desc_audio_2_ac_clock_selector =
    [desc_init ''bClockID'' 1 DESC_NUMBER,
     desc_init ''bNrInPins'' 1 DESC_NUMBER,
     (desc_init ''baCSourceID'' 1 DESC_NUMBER)\<lparr>array_d := array_len1 ''bNrInPins''\<rparr>,
     (desc_init ''bmControls'' 1 DESC_BMCONTROL_2)
       \<lparr>bmcontrol := uac2_clock_selector_bmcontrols\<rparr>,
     desc_init ''iClockSelector'' 1 DESC_STR_DESC_INDEX]"

definition desc_audio_ac_clock_selector :: "desc list option list" where
  "desc_audio_ac_clock_selector = [None, Some desc_audio_2_ac_clock_selector, None]"

definition desc_audio_2_ac_clock_multiplier :: "desc list" where
  "desc_audio_2_ac_clock_multiplier =
    [desc_init ''bClockID'' 1 DESC_CONSTANT,
     desc_init ''bCSourceID'' 1 DESC_NUMBER,
     (desc_init ''bmControls'' 1 DESC_BMCONTROL_2)
       \<lparr>bmcontrol := uac2_clock_multiplier_bmcontrols\<rparr>,
     desc_init ''iClockMultiplier'' 1 DESC_STR_DESC_INDEX]"

definition desc_audio_ac_clock_multiplier :: "desc list option list" where
  "desc_audio_ac_clock_multiplier = [None, Some desc_audio_2_ac_clock_multiplier, None]"

definition desc_audio_2_ac_sample_rate_converter :: "desc list" where
  "desc_audio_2_ac_sample_rate_converter =
    [desc_init ''bUnitID'' 1 DESC_CONSTANT,
     desc_init ''bSourceID'' 1 DESC_CONSTANT,
     desc_init ''bCSourceInID'' 1 DESC_CONSTANT,
     desc_init ''bCSourceOutID'' 1 DESC_CONSTANT,
     desc_init ''iSRC'' 1 DESC_STR_DESC_INDEX]"

definition desc_audio_ac_sample_rate_converter :: "desc list option list" where
  "desc_audio_ac_sample_rate_converter =
    [None, Some desc_audio_2_ac_sample_rate_converter, None]"

definition desc_audio_1_as_interface :: "desc list" where
  "desc_audio_1_as_interface =
    [desc_init ''bTerminalLink'' 1 DESC_CONSTANT,
     (desc_init ''bDelay'' 1 DESC_NUMBER_POSTFIX)\<lparr>number_postfix := Some '' frames''\<rparr>,
     (desc_init ''wFormatTag'' 2 DESC_SNOWFLAKE)
       \<lparr>snowflake := Some Desc_snowflake_dump_uac1_as_interface_wformattag\<rparr>]"

definition desc_audio_2_as_interface :: "desc list" where
  "desc_audio_2_as_interface =
    [desc_init ''bTerminalLink'' 1 DESC_NUMBER,
     (desc_init ''bmControls'' 1 DESC_BMCONTROL_2)
       \<lparr>bmcontrol := uac2_as_interface_bmcontrols\<rparr>,
     desc_init ''bFormatType'' 1 DESC_CONSTANT,
     (desc_init ''bmFormats'' 4 DESC_SNOWFLAKE)
       \<lparr>snowflake := Some Desc_snowflake_dump_uac2_as_interface_bmformats\<rparr>,
     desc_init ''bNrChannels'' 1 DESC_NUMBER,
     (desc_init ''bmChannelConfig'' 4 DESC_BITMAP_STRINGS)
       \<lparr>bitmap_strings := \<lparr>strings = uac2_channel_names, count = 26\<rparr>\<rparr>,
     desc_init ''iChannelNames'' 1 DESC_STR_DESC_INDEX]"

definition desc_audio_as_interface :: "desc list option list" where
  "desc_audio_as_interface =
    [Some desc_audio_1_as_interface, Some desc_audio_2_as_interface, None]"

definition desc_audio_1_as_isochronous_audio_data_endpoint :: "desc list" where
  "desc_audio_1_as_isochronous_audio_data_endpoint =
    [(desc_init ''bmAttributes'' 1 DESC_BITMAP_STRINGS)
       \<lparr>bitmap_strings := \<lparr>strings = uac1_as_endpoint_bmattributes, count = 8\<rparr>\<rparr>,
     (desc_init ''bLockDelayUnits'' 1 DESC_NUMBER_STRINGS)
       \<lparr>number_strings := uac_as_isochronous_audio_data_endpoint_blockdelayunits\<rparr>,
     desc_init ''wLockDelay'' 2 DESC_NUMBER]"

definition desc_audio_2_as_isochronous_audio_data_endpoint :: "desc list" where
  "desc_audio_2_as_isochronous_audio_data_endpoint =
    [(desc_init ''bmAttributes'' 1 DESC_BITMAP_STRINGS)
       \<lparr>bitmap_strings := \<lparr>strings = uac2_as_endpoint_bmattributes, count = 8\<rparr>\<rparr>,
     (desc_init ''bmControls'' 1 DESC_BMCONTROL_2)
       \<lparr>bmcontrol := uac2_as_isochronous_audio_data_endpoint_bmcontrols\<rparr>,
     (desc_init ''bLockDelayUnits'' 1 DESC_NUMBER_STRINGS)
       \<lparr>number_strings := uac_as_isochronous_audio_data_endpoint_blockdelayunits\<rparr>,
     desc_init ''wLockDelay'' 2 DESC_NUMBER]"

definition desc_audio_as_isochronous_audio_data_endpoint :: "desc list option list" where
  "desc_audio_as_isochronous_audio_data_endpoint =
    [Some desc_audio_1_as_isochronous_audio_data_endpoint,
     Some desc_audio_2_as_isochronous_audio_data_endpoint, None]"

subsection \<open>The functions behind the \<^verbatim>\<open>snowflake\<close> pointers\<close>

text \<open>
  The table \<open>desc_audio_1_as_interface\<close> names
  \<^verbatim>\<open>desc_snowflake_dump_uac1_as_interface_wformattag\<close>, which the file defines twice; which
  of the two definitions the name stands for is a parameter.
\<close>

datatype wformattag_definition = Generic_range | Literal_range

fun call_snowflake :: "wformattag_definition \<Rightarrow> snowflake_fn \<Rightarrow> ull \<Rightarrow> uint \<Rightarrow> fault + string" where
  "call_snowflake w Desc_snowflake_dump_uac2_clk_src_bmattr =
     desc_snowflake_dump_uac2_clk_src_bmattr"
| "call_snowflake Generic_range Desc_snowflake_dump_uac1_as_interface_wformattag =
     desc_snowflake_dump_uac1_as_interface_wformattag_generic"
| "call_snowflake Literal_range Desc_snowflake_dump_uac1_as_interface_wformattag =
     desc_snowflake_dump_uac1_as_interface_wformattag_literal"
| "call_snowflake w Desc_snowflake_dump_uac2_as_interface_bmformats =
     desc_snowflake_dump_uac2_as_interface_bmformats"

subsection \<open>References between the fields of a table\<close>

text \<open>
  The names an entry gives in \<^verbatim>\<open>size_field\<close>, \<^verbatim>\<open>length_field1\<close> and \<^verbatim>\<open>length_field2\<close>,
  and every field table the file defines.
\<close>

definition refs_of :: "desc \<Rightarrow> string list" where
  "refs_of d =
    (case size_field d of None \<Rightarrow> [] | Some n \<Rightarrow> [n]) @
    (case length_field1 (array_d d) of None \<Rightarrow> [] | Some n \<Rightarrow> [n]) @
    (case length_field2 (array_d d) of None \<Rightarrow> [] | Some n \<Rightarrow> [n])"

definition all_field_tables :: "desc list list" where
  "all_field_tables =
    [desc_audio_1_ac_header, desc_audio_2_ac_header,
     desc_audio_2_ac_effect_unit,
     desc_audio_1_ac_input_terminal, desc_audio_2_ac_input_terminal,
     desc_audio_1_ac_output_terminal, desc_audio_2_ac_output_terminal,
     desc_audio_1_ac_mixer_unit, desc_audio_2_ac_mixer_unit,
     desc_audio_1_ac_selector_unit, desc_audio_2_ac_selector_unit,
     desc_audio_1_ac_processing_unit, desc_audio_2_ac_processing_unit,
     desc_audio_1_ac_feature_unit, desc_audio_2_ac_feature_unit,
     desc_audio_1_ac_extension_unit, desc_audio_2_ac_extension_unit,
     desc_audio_2_ac_clock_source, desc_audio_2_ac_clock_selector,
     desc_audio_2_ac_clock_multiplier, desc_audio_2_ac_sample_rate_converter,
     desc_audio_1_as_interface, desc_audio_2_as_interface,
     desc_audio_1_as_isochronous_audio_data_endpoint,
     desc_audio_2_as_isochronous_audio_data_endpoint]"

text \<open>
  The check of a table in one pass: every reference of an entry is among the names of the
  entries before it.
\<close>

fun earlier_only :: "string list \<Rightarrow> desc list \<Rightarrow> bool" where
  "earlier_only seen [] = True"
| "earlier_only seen (d # ds) =
    (list_all (\<lambda>n. n \<in> set seen) (refs_of d) \<and> earlier_only (seen @ [field d]) ds)"

section \<open>The decoding engine of the specification\<close>

text \<open>
  The interpreter that walks a field table against the bytes of a descriptor, the lookup
  of a table by descriptor kind and protocol, and the generic rendering of each field type
  are not in the source file. The definitions of this section follow the specification.
\<close>

subsection \<open>Schema registry\<close>

datatype protocol_generation = UAC1 | UAC2 | UAC3

fun generation_index :: "protocol_generation \<Rightarrow> nat" where
  "generation_index UAC1 = 0"
| "generation_index UAC2 = 1"
| "generation_index UAC3 = 2"

datatype descriptor_kind =
    AC_Header | Effect_Unit | Input_Terminal | Output_Terminal | Mixer_Unit | Selector_Unit
  | Processing_Unit | Feature_Unit | Extension_Unit | Clock_Source | Clock_Selector
  | Clock_Multiplier | Sample_Rate_Converter | AS_Interface
  | AS_Isochronous_Audio_Data_Endpoint

text \<open>
  Modelled from the spec: the Schema Registry, which the source gives as one exported array
  of three table pointers per descriptor kind; the code that selects an array by kind is
  missing.
\<close>

fun registry :: "descriptor_kind \<Rightarrow> desc list option list" where
  "registry AC_Header = desc_audio_ac_header"
| "registry Effect_Unit = desc_audio_ac_effect_unit"
| "registry Input_Terminal = desc_audio_ac_input_terminal"
| "registry Output_Terminal = desc_audio_ac_output_terminal"
| "registry Mixer_Unit = desc_audio_ac_mixer_unit"
| "registry Selector_Unit = desc_audio_ac_selector_unit"
| "registry Processing_Unit = desc_audio_ac_processing_unit"
| "registry Feature_Unit = desc_audio_ac_feature_unit"
| "registry Extension_Unit = desc_audio_ac_extension_unit"
| "registry Clock_Source = desc_audio_ac_clock_source"
| "registry Clock_Selector = desc_audio_ac_clock_selector"
| "registry Clock_Multiplier = desc_audio_ac_clock_multiplier"
| "registry Sample_Rate_Converter = desc_audio_ac_sample_rate_converter"
| "registry AS_Interface = desc_audio_as_interface"
| "registry AS_Isochronous_Audio_Data_Endpoint = desc_audio_as_isochronous_audio_data_endpoint"

text \<open>
  Modelled from the spec: \<^verbatim>\<open>lookup(descriptor_kind, protocol_generation)\<close>, missing from the
  source. It returns the schema if defined and the unsupported result (\<open>None\<close>) otherwise,
  for every combination.
\<close>

definition lookup :: "descriptor_kind \<Rightarrow> protocol_generation \<Rightarrow> desc list option" where
  "lookup kind gen =
    (let entries = registry kind; i = generation_index gen
     in if i < length entries then entries ! i else None)"

subsection \<open>Decoded values\<close>

text \<open>
  Modelled from the spec: the error taxonomy of the decoder, missing from the source.
\<close>

datatype decode_error = UnsupportedCombination | BufferUnderrun | MalformedSchema

text \<open>
  Modelled from the spec: the access levels of a control with two bits (00 not present,
  01 read-only, 10 reserved or invalid, 11 read-write); the renderer of control bits is
  missing from the source.
\<close>

datatype access_level = Not_present | Read_only | Reserved_invalid | Read_write

definition access_of :: "nat \<Rightarrow> access_level" where
  "access_of n =
    (if n = 0 then Not_present else if n = 1 then Read_only
     else if n = 2 then Reserved_invalid else Read_write)"

text \<open>
  Modelled from the spec: the structured rendering of a field, one form per field kind; the
  generic renderer is missing from the source. A custom field holds what its strategy
  printed, or the fault it ran into.
\<close>

datatype rendering =
    Number nat
  | Constant nat
  | Bcd nat nat
  | String_index nat
  | Terminal_type nat
  | Number_with_suffix nat string
  | Label string
  | Bitmap nat
  | Labels "string list"
  | Controls_1 "string list"
  | Controls_2 "(string \<times> access_level) list"
  | Custom "fault + string"

text \<open>
  Modelled from the spec: one decoded repetition of a field in the decoded record (name,
  position and width of the bytes read, decoded integer, rendering), and the record that a
  successful decode returns; both are missing from the source.
\<close>

record decoded_field =
  f_name :: string
  f_offset :: nat
  f_width :: nat
  f_value :: nat
  f_rendering :: rendering

record decoded_record =
  r_fields :: "decoded_field list"
  r_consumed :: nat

subsection \<open>Label tables\<close>

text \<open>
  Modelled from the spec: the lookup in a Bit/Label Table, missing from the source. An
  index with no entry, beyond the table or at a gap, has no label.
\<close>

definition label_at :: "cstr list \<Rightarrow> nat \<Rightarrow> cstr" where
  "label_at table i = (if i < length table then table ! i else None)"

text \<open>
  Modelled from the spec: the labels of the set bits of a value (BITMAP_FROM_TABLE and
  CONTROL_BITS_1), missing from the source. The head of the table belongs to bit 0; an
  unset bit and a bit with no label are left out.
\<close>

fun set_bit_labels :: "cstr list \<Rightarrow> nat \<Rightarrow> string list" where
  "set_bit_labels [] v = []"
| "set_bit_labels (l # ls) v =
    (case l of None \<Rightarrow> [] | Some s \<Rightarrow> if odd v then [s] else []) @ set_bit_labels ls (v div 2)"

text \<open>
  Modelled from the spec: the controls of a value with two bits per control
  (CONTROL_BITS_2), each control name with its access level; missing from the source.
\<close>

fun control_levels :: "cstr list \<Rightarrow> nat \<Rightarrow> (string \<times> access_level) list" where
  "control_levels [] v = []"
| "control_levels (l # ls) v =
    (case l of None \<Rightarrow> [] | Some s \<Rightarrow> [(s, access_of (v mod 4))]) @ control_levels ls (v div 4)"

subsection \<open>Field decoder\<close>

type_synonym byte = "8 word"

text \<open>
  Modelled from the spec: what a decode call is given besides the schema and the buffer.
  The specification lets an array have a fixed count, and the tables give none to an array
  without \<^verbatim>\<open>length_field1\<close>, so the count of such an array is supplied per field name;
  the indent depth is passed to custom decoders.
\<close>

record decode_params =
  p_wformattag :: wformattag_definition
  p_fixed_count :: "string \<Rightarrow> nat"
  p_indent :: uint

text \<open>
  Modelled from the spec: the Decode Context, missing from the source: the cursor, the
  append-only mapping from field name to decoded integer (a name keeps its first value),
  and the output so far.
\<close>

record decode_context =
  cursor :: nat
  known :: "(string \<times> nat) list"
  out :: "decoded_field list"

text \<open>
  Modelled from the spec: reading bytes as an unsigned little-endian integer, failing with
  BufferUnderrun if too few bytes remain; missing from the source.
\<close>

fun le_value :: "byte list \<Rightarrow> nat" where
  "le_value [] = 0"
| "le_value (b # bs) = unat b + 256 * le_value bs"

definition read_bytes :: "byte list \<Rightarrow> nat \<Rightarrow> nat \<Rightarrow> decode_error + nat" where
  "read_bytes buffer pos w =
    (if pos + w \<le> length buffer then Inr (le_value (take w (drop pos buffer)))
     else Inl BufferUnderrun)"

text \<open>
  Modelled from the spec: the value of a referenced field in the context, missing from the
  source. The specification calls a reference to a field with no decoded value a
  schema-authoring fault; the model reports it as MalformedSchema.
\<close>

definition resolve :: "(string \<times> nat) list \<Rightarrow> string \<Rightarrow> decode_error + nat" where
  "resolve ctx n = (case map_of ctx n of None \<Rightarrow> Inl MalformedSchema | Some v \<Rightarrow> Inr v)"

text \<open>
  Modelled from the spec: step 1 of the Field Decoder, missing from the source: the
  effective byte width is the literal size, or the decoded value of \<^verbatim>\<open>size_field\<close>.
\<close>

definition effective_width :: "(string \<times> nat) list \<Rightarrow> desc \<Rightarrow> decode_error + nat" where
  "effective_width ctx d =
    (case size_field d of None \<Rightarrow> Inr (size_d d) | Some n \<Rightarrow> resolve ctx n)"

text \<open>
  Modelled from the spec: step 2 of the Field Decoder, missing from the source: the
  repetition count is 1 for a scalar, and for an array the fixed count, the value of
  \<^verbatim>\<open>length_field1\<close>, or the product of the values of \<^verbatim>\<open>length_field1\<close> and
  \<^verbatim>\<open>length_field2\<close>.
\<close>

definition repetition_count ::
    "decode_params \<Rightarrow> (string \<times> nat) list \<Rightarrow> desc \<Rightarrow> decode_error + nat" where
  "repetition_count p ctx d =
    (if \<not> array (array_d d) then Inr 1
     else case length_field1 (array_d d) of
       None \<Rightarrow> Inr (p_fixed_count p (field d))
     | Some f1 \<Rightarrow>
        (case resolve ctx f1 of
           Inl e \<Rightarrow> Inl e
         | Inr v1 \<Rightarrow>
            (case length_field2 (array_d d) of
               None \<Rightarrow> Inr v1
             | Some f2 \<Rightarrow>
                (case resolve ctx f2 of Inl e \<Rightarrow> Inl e | Inr v2 \<Rightarrow> Inr (v1 * v2)))))"

text \<open>
  Modelled from the spec: step 4 of the Field Decoder, the interpretation of a value per
  field kind, missing from the source. The field types of the tables are the kinds of the
  specification: \<^verbatim>\<open>DESC_NUMBER_POSTFIX\<close> is NUMBER_WITH_SUFFIX, \<^verbatim>\<open>DESC_NUMBER_STRINGS\<close> is
  NUMBER_FROM_TABLE, \<^verbatim>\<open>DESC_BITMAP_STRINGS\<close> is BITMAP_FROM_TABLE over the first
  \<^verbatim>\<open>count\<close> entries of its table, \<^verbatim>\<open>DESC_BMCONTROL_1\<close> and \<^verbatim>\<open>DESC_BMCONTROL_2\<close> are
  CONTROL_BITS_1 and CONTROL_BITS_2, \<^verbatim>\<open>DESC_SNOWFLAKE\<close> is CUSTOM.
\<close>

definition interpret_value :: "decode_params \<Rightarrow> desc \<Rightarrow> nat \<Rightarrow> rendering" where
  "interpret_value p d v =
    (case type d of
       DESC_NUMBER \<Rightarrow> Number v
     | DESC_CONSTANT \<Rightarrow> Constant v
     | DESC_BCD \<Rightarrow> Bcd (v div 256 mod 256) (v mod 256)
     | DESC_STR_DESC_INDEX \<Rightarrow> String_index v
     | DESC_TERMINAL_STR \<Rightarrow> Terminal_type v
     | DESC_NUMBER_POSTFIX \<Rightarrow>
         Number_with_suffix v (case number_postfix d of None \<Rightarrow> [] | Some s \<Rightarrow> s)
     | DESC_NUMBER_STRINGS \<Rightarrow>
         Label (case label_at (number_strings d) v of None \<Rightarrow> ''undefined'' | Some l \<Rightarrow> l)
     | DESC_BITMAP \<Rightarrow> Bitmap v
     | DESC_BITMAP_STRINGS \<Rightarrow>
         Labels (set_bit_labels
                   (take (count (bitmap_strings d)) (strings (bitmap_strings d))) v)
     | DESC_BMCONTROL_1 \<Rightarrow> Controls_1 (set_bit_labels (bmcontrol d) v)
     | DESC_BMCONTROL_2 \<Rightarrow> Controls_2 (control_levels (bmcontrol d) v)
     | DESC_SNOWFLAKE \<Rightarrow>
         Custom (case snowflake d of
                   None \<Rightarrow> Inl Null_call
                 | Some f \<Rightarrow> call_snowflake (p_wformattag p) f (of_nat v) (p_indent p)))"

text \<open>
  Modelled from the spec: steps 3 to 6 of the Field Decoder for the repetitions of one
  field, missing from the source: read the bytes, interpret them, record the value under
  the field's name, append the rendering, advance the cursor.
\<close>

fun decode_repetitions ::
    "decode_params \<Rightarrow> byte list \<Rightarrow> desc \<Rightarrow> nat \<Rightarrow> nat \<Rightarrow> decode_context
      \<Rightarrow> decode_error + decode_context" where
  "decode_repetitions p buffer d w 0 c = Inr c"
| "decode_repetitions p buffer d w (Suc n) c =
    (case read_bytes buffer (cursor c) w of
       Inl e \<Rightarrow> Inl e
     | Inr v \<Rightarrow>
        decode_repetitions p buffer d w n
          (c\<lparr>cursor := cursor c + w,
             known := known c @ [(field d, v)],
             out := out c @
               [\<lparr>f_name = field d, f_offset = cursor c, f_width = w, f_value = v,
                 f_rendering = interpret_value p d v\<rparr>]\<rparr>))"

text \<open>
  Modelled from the spec: the Field Decoder on one schema entry, missing from the source.
\<close>

definition decode_field ::
    "decode_params \<Rightarrow> byte list \<Rightarrow> desc \<Rightarrow> decode_context \<Rightarrow> decode_error + decode_context" where
  "decode_field p buffer d c =
    (case effective_width (known c) d of
       Inl e \<Rightarrow> Inl e
     | Inr w \<Rightarrow>
        (case repetition_count p (known c) d of
           Inl e \<Rightarrow> Inl e
         | Inr n \<Rightarrow> decode_repetitions p buffer d w n c))"

text \<open>
  Modelled from the spec: the single forward pass over the fields in schema order, missing
  from the source; the first error ends it.
\<close>

fun decode_fields ::
    "decode_params \<Rightarrow> byte list \<Rightarrow> desc list \<Rightarrow> decode_context \<Rightarrow> decode_error + decode_context" where
  "decode_fields p buffer [] c = Inr c"
| "decode_fields p buffer (d # ds) c =
    (case decode_field p buffer d c of
       Inl e \<Rightarrow> Inl e
     | Inr c' \<Rightarrow> decode_fields p buffer ds c')"

text \<open>
  Modelled from the spec: \<^verbatim>\<open>decode(schema, buffer) -> DecodedRecord | DecodeError\<close>, missing
  from the source. A failed decode returns the error and nothing of the output.
\<close>

definition decode ::
    "decode_params \<Rightarrow> desc list \<Rightarrow> byte list \<Rightarrow> decode_error + decoded_record" where
  "decode p schema buffer =
    (case decode_fields p buffer schema \<lparr>cursor = 0, known = [], out = []\<rparr> of
       Inl e \<Rightarrow> Inl e
     | Inr c \<Rightarrow> Inr \<lparr>r_fields = out c, r_consumed = cursor c\<rparr>)"

text \<open>
  Modelled from the spec: \<^verbatim>\<open>render_descriptor(kind, protocol_generation, buffer)\<close>, missing
  from the source: the lookup of the schema, then the decode.
\<close>

definition render_descriptor ::
    "decode_params \<Rightarrow> descriptor_kind \<Rightarrow> protocol_generation \<Rightarrow> byte list
      \<Rightarrow> decode_error + decoded_record" where
  "render_descriptor p kind gen buffer =
    (case lookup kind gen of
       None \<Rightarrow> Inl UnsupportedCombination
     | Some schema \<Rightarrow> decode p schema buffer)"

subsection \<open>Reading a decoded record\<close>

text \<open>
  The repetitions decoded for a field name, their number, the bytes they took, and their
  renderings.
\<close>

definition entries_of :: "decoded_record \<Rightarrow> string \<Rightarrow> decoded_field list" where
  "entries_of r n = filter (\<lambda>e. f_name e = n) (r_fields r)"

definition repetitions :: "decoded_record \<Rightarrow> string \<Rightarrow> nat" where
  "repetitions r n = length (entries_of r n)"

definition bytes_consumed :: "decoded_record \<Rightarrow> string \<Rightarrow> nat" where
  "bytes_consumed r n = sum_list (map f_width (entries_of r n))"

definition rendered :: "decode_error + decoded_record \<Rightarrow> string \<Rightarrow> decode_error + rendering list" where
  "rendered res n =
    (case res of Inl e \<Rightarrow> Inl e | Inr r \<Rightarrow> Inr (map f_rendering (entries_of r n)))"

text \<open>Decode parameters for a descriptor whose arrays without a length field are empty.\<close>

definition no_open_arrays :: "string \<Rightarrow> nat" where
  "no_open_arrays n = 0"

definition params0 :: "wformattag_definition \<Rightarrow> decode_params" where
  "params0 w = \<lparr>p_wformattag = w, p_fixed_count = no_open_arrays, p_indent = 0\<rparr>"

section \<open>Properties of the special rendering functions\<close>

lemma format_table_lengths:
  "length audio_data_format_type_i = 6"
  "length audio_data_format_type_ii = 3"
  "length audio_data_format_type_iii = 7"
  by (simp_all add: audio_data_format_type_i_def audio_data_format_type_ii_def
      audio_data_format_type_iii_def)

lemmas wformattag_defs =
  desc_snowflake_dump_uac1_as_interface_wformattag_generic_def
  desc_snowflake_dump_uac1_as_interface_wformattag_literal_def
  fmt_s_def array_read_def ARRAY_LEN_def
  UAC_FORMAT_TYPE_I_def UAC_FORMAT_TYPE_II_def UAC_FORMAT_TYPE_III_def
  audio_data_format_type_i_def audio_data_format_type_ii_def audio_data_format_type_iii_def

text \<open>
  Claim C7. Both definitions of the UAC1 AS Interface wFormatTag renderer print the label
  \<open>PCM\<close> for the value 0x0001 and the label \<open>IEC1937_MPEG-1_Layer1\<close> for the value 0x2002,
  the entry of the type III table at the low twelve bits of the value, which are 2. The
  label is printed after one space and before a newline.
\<close>

theorem wformattag_pcm_and_mpeg1_layer1:
  "desc_snowflake_dump_uac1_as_interface_wformattag_literal 0x0001 indent
     = Inr ('' PCM'' @ ''\<newline>'')
   \<and> desc_snowflake_dump_uac1_as_interface_wformattag_literal 0x2002 indent
     = Inr ('' IEC1937_MPEG-1_Layer1'' @ ''\<newline>'')
   \<and> desc_snowflake_dump_uac1_as_interface_wformattag_generic 0x0001 indent
     = Inr ('' PCM'' @ ''\<newline>'')
   \<and> desc_snowflake_dump_uac1_as_interface_wformattag_generic 0x2002 indent
     = Inr ('' IEC1937_MPEG-1_Layer1'' @ ''\<newline>'')
   \<and> (0x2002 :: ull) AND 0xfff = 2
   \<and> array_read audio_data_format_type_iii 2 = Inr (Some ''IEC1937_MPEG-1_Layer1'')"
  by (simp add: wformattag_defs)

subsection \<open>Where the two wFormatTag definitions differ\<close>

text \<open>
  At a value equal to a type prefix plus the length of its table, the first definition
  still takes the table branch and reads the table at its length; the second definition
  prints \<open>undefined\<close>.
\<close>

lemma wformattag_generic_at_table_length:
  "desc_snowflake_dump_uac1_as_interface_wformattag_generic 6 indent = Inl Out_of_bounds"
  "desc_snowflake_dump_uac1_as_interface_wformattag_generic 0x1003 indent = Inl Out_of_bounds"
  "desc_snowflake_dump_uac1_as_interface_wformattag_generic 0x2007 indent = Inl Out_of_bounds"
  by (simp_all add: wformattag_defs)

lemma wformattag_literal_at_table_length:
  "desc_snowflake_dump_uac1_as_interface_wformattag_literal 6 indent
     = Inr ('' undefined'' @ ''\<newline>'')"
  "desc_snowflake_dump_uac1_as_interface_wformattag_literal 0x1003 indent
     = Inr ('' undefined'' @ ''\<newline>'')"
  "desc_snowflake_dump_uac1_as_interface_wformattag_literal 0x2007 indent
     = Inr ('' undefined'' @ ''\<newline>'')"
  by (simp_all add: wformattag_defs)

text \<open>
  Claim C2. The two definitions of the UAC1 wFormatTag renderer give different outcomes at
  the values 6, 0x1003 and 0x2007, each a type prefix plus the length of the format table
  of that type.
\<close>

theorem wformattag_definitions_diverge:
  "desc_snowflake_dump_uac1_as_interface_wformattag_generic 6 indent
     \<noteq> desc_snowflake_dump_uac1_as_interface_wformattag_literal 6 indent
   \<and> desc_snowflake_dump_uac1_as_interface_wformattag_generic 0x1003 indent
     \<noteq> desc_snowflake_dump_uac1_as_interface_wformattag_literal 0x1003 indent
   \<and> desc_snowflake_dump_uac1_as_interface_wformattag_generic 0x2007 indent
     \<noteq> desc_snowflake_dump_uac1_as_interface_wformattag_literal 0x2007 indent"
  by (simp add: wformattag_generic_at_table_length wformattag_literal_at_table_length)

text \<open>
  Claim C3, at the failing inputs. For the wFormatTag values 6, 0x1003 and 0x2007 the first
  (generic-range) definition reads \<open>audio_data_format_type_i\<close>, \<open>_ii\<close> and \<open>_iii\<close> at the
  indices 6, 3 and 7, which are the lengths of the tables: the index is not strictly
  within the bounds.
\<close>

theorem wformattag_generic_reads_past_table:
  "desc_snowflake_dump_uac1_as_interface_wformattag_generic 6 indent = Inl Out_of_bounds
   \<and> desc_snowflake_dump_uac1_as_interface_wformattag_generic 0x1003 indent = Inl Out_of_bounds
   \<and> desc_snowflake_dump_uac1_as_interface_wformattag_generic 0x2007 indent = Inl Out_of_bounds
   \<and> unat (6 :: ull) = length audio_data_format_type_i
   \<and> unat ((0x1003 :: ull) AND 0xfff) = length audio_data_format_type_ii
   \<and> unat ((0x2007 :: ull) AND 0xfff) = length audio_data_format_type_iii"
  by (simp add: wformattag_generic_at_table_length format_table_lengths)

subsection \<open>The two definitions on every other value\<close>

lemma ull_range_cases:
  fixes v :: ull
  assumes "unat lo \<le> unat v" "unat v \<le> unat lo + k"
  shows "\<exists>j\<le>k. v = lo + of_nat j"
proof -
  have "unat lo + (unat v - unat lo) = unat v"
    using assms(1) by simp
  then have "(of_nat (unat lo) :: ull) + of_nat (unat v - unat lo) = of_nat (unat v)"
    by (simp only: of_nat_add [symmetric])
  then have "v = lo + of_nat (unat v - unat lo)"
    by simp
  moreover have "unat v - unat lo \<le> k"
    using assms by simp
  ultimately show ?thesis by blast
qed

lemma nat_le_3_cases: "(j::nat) \<le> 3 \<Longrightarrow> j = 0 \<or> j = 1 \<or> j = 2 \<or> j = 3"
  by arith

lemma nat_le_6_cases:
  "(j::nat) \<le> 6 \<Longrightarrow> j = 0 \<or> j = 1 \<or> j = 2 \<or> j = 3 \<or> j = 4 \<or> j = 5 \<or> j = 6"
  by arith

lemma nat_le_7_cases:
  "(j::nat) \<le> 7 \<Longrightarrow> j = 0 \<or> j = 1 \<or> j = 2 \<or> j = 3 \<or> j = 4 \<or> j = 5 \<or> j = 6 \<or> j = 7"
  by arith

lemma type_i_range:
  fixes v :: ull
  assumes "v \<le> 6"
  shows "v \<in> {0, 1, 2, 3, 4, 5, 6}"
proof -
  from assms have "unat (0::ull) \<le> unat v" "unat v \<le> unat (0::ull) + 6"
    by (simp_all add: word_le_nat_alt)
  from ull_range_cases[OF this] obtain j where "j \<le> 6" "v = of_nat j"
    by auto
  with nat_le_6_cases[of j] show ?thesis by auto
qed

lemma type_ii_range:
  fixes v :: ull
  assumes "0x1000 \<le> v" "v \<le> 0x1003"
  shows "v \<in> {0x1000, 0x1001, 0x1002, 0x1003}"
proof -
  from assms have "unat (0x1000::ull) \<le> unat v" "unat v \<le> unat (0x1000::ull) + 3"
    by (simp_all add: word_le_nat_alt)
  from ull_range_cases[OF this] obtain j where "j \<le> 3" "v = 0x1000 + of_nat j"
    by auto
  with nat_le_3_cases[of j] show ?thesis by auto
qed

lemma type_iii_range:
  fixes v :: ull
  assumes "0x2000 \<le> v" "v \<le> 0x2007"
  shows "v \<in> {0x2000, 0x2001, 0x2002, 0x2003, 0x2004, 0x2005, 0x2006, 0x2007}"
proof -
  from assms have "unat (0x2000::ull) \<le> unat v" "unat v \<le> unat (0x2000::ull) + 7"
    by (simp_all add: word_le_nat_alt)
  from ull_range_cases[OF this] obtain j where "j \<le> 7" "v = 0x2000 + of_nat j"
    by auto
  with nat_le_7_cases[of j] show ?thesis by auto
qed

lemma wformattag_agree_type_i:
  "v \<in> {0, 1, 2, 3, 4, 5} \<Longrightarrow>
   desc_snowflake_dump_uac1_as_interface_wformattag_generic v indent
     = desc_snowflake_dump_uac1_as_interface_wformattag_literal v indent"
  by (elim insertE emptyE) (simp_all add: wformattag_defs)

lemma wformattag_agree_type_ii:
  "v \<in> {0x1000, 0x1001, 0x1002} \<Longrightarrow>
   desc_snowflake_dump_uac1_as_interface_wformattag_generic v indent
     = desc_snowflake_dump_uac1_as_interface_wformattag_literal v indent"
  by (elim insertE emptyE) (simp_all add: wformattag_defs)

lemma wformattag_agree_type_iii:
  "v \<in> {0x2000, 0x2001, 0x2002, 0x2003, 0x2004, 0x2005, 0x2006} \<Longrightarrow>
   desc_snowflake_dump_uac1_as_interface_wformattag_generic v indent
     = desc_snowflake_dump_uac1_as_interface_wformattag_literal v indent"
  by (elim insertE emptyE) (simp_all add: wformattag_defs)

lemma wformattag_outside_ranges:
  fixes v :: ull
  assumes "\<not> v \<le> 6" "\<not> (0x1000 \<le> v \<and> v \<le> 0x1003)" "\<not> (0x2000 \<le> v \<and> v \<le> 0x2007)"
  shows "desc_snowflake_dump_uac1_as_interface_wformattag_generic v indent
           = Inr ('' undefined'' @ ''\<newline>'')"
    and "desc_snowflake_dump_uac1_as_interface_wformattag_literal v indent
           = Inr ('' undefined'' @ ''\<newline>'')"
proof -
  show "desc_snowflake_dump_uac1_as_interface_wformattag_generic v indent
          = Inr ('' undefined'' @ ''\<newline>'')"
    using assms
    by (auto simp add: desc_snowflake_dump_uac1_as_interface_wformattag_generic_def fmt_s_def
        ARRAY_LEN_def UAC_FORMAT_TYPE_I_def UAC_FORMAT_TYPE_II_def UAC_FORMAT_TYPE_III_def
        format_table_lengths)
  have "\<not> v \<le> 5" "\<not> (0x1000 \<le> v \<and> v \<le> 0x1002)" "\<not> (0x2000 \<le> v \<and> v \<le> 0x2006)"
    using assms by (auto simp add: word_le_nat_alt)
  then show "desc_snowflake_dump_uac1_as_interface_wformattag_literal v indent
               = Inr ('' undefined'' @ ''\<newline>'')"
    by (auto simp add: desc_snowflake_dump_uac1_as_interface_wformattag_literal_def fmt_s_def)
qed

text \<open>Away from the three values the two definitions print the same text.\<close>

lemma wformattag_definitions_agree:
  assumes "v \<noteq> 6" "v \<noteq> 0x1003" "v \<noteq> 0x2007"
  shows "desc_snowflake_dump_uac1_as_interface_wformattag_generic v indent
           = desc_snowflake_dump_uac1_as_interface_wformattag_literal v indent"
proof -
  consider "v \<le> 6" | "0x1000 \<le> v" "v \<le> 0x1003" | "0x2000 \<le> v" "v \<le> 0x2007"
    | "\<not> v \<le> 6" "\<not> (0x1000 \<le> v \<and> v \<le> 0x1003)" "\<not> (0x2000 \<le> v \<and> v \<le> 0x2007)"
    by blast
  then show ?thesis
  proof cases
    case 1
    from type_i_range[OF 1] assms(1) have "v \<in> {0, 1, 2, 3, 4, 5}"
      by blast
    then show ?thesis by (rule wformattag_agree_type_i)
  next
    case 2
    from type_ii_range[OF 2] assms(2) have "v \<in> {0x1000, 0x1001, 0x1002}"
      by blast
    then show ?thesis by (rule wformattag_agree_type_ii)
  next
    case 3
    from type_iii_range[OF 3] assms(3)
    have "v \<in> {0x2000, 0x2001, 0x2002, 0x2003, 0x2004, 0x2005, 0x2006}"
      by blast
    then show ?thesis by (rule wformattag_agree_type_iii)
  next
    case 4
    from wformattag_outside_ranges[OF 4] show ?thesis by simp
  qed
qed

text \<open>The second definition prints a text for every value: it reads no table out of bounds.\<close>

lemma wformattag_literal_total:
  "\<exists>s. desc_snowflake_dump_uac1_as_interface_wformattag_literal v indent = Inr s"
proof -
  consider "v = 6" | "v = 0x1003" | "v = 0x2007" | "v \<noteq> 6" "v \<noteq> 0x1003" "v \<noteq> 0x2007"
    by blast
  then show ?thesis
  proof cases
    case 4
    consider "v \<le> 6" | "0x1000 \<le> v" "v \<le> 0x1003" | "0x2000 \<le> v" "v \<le> 0x2007"
      | "\<not> v \<le> 6" "\<not> (0x1000 \<le> v \<and> v \<le> 0x1003)" "\<not> (0x2000 \<le> v \<and> v \<le> 0x2007)"
      by blast
    then show ?thesis
    proof cases
      case 1
      from type_i_range[OF 1] 4(1) have "v \<in> {0, 1, 2, 3, 4, 5}"
        by blast
      then show ?thesis
        by (elim insertE emptyE) (simp_all add: wformattag_defs)
    next
      case 2
      from type_ii_range[OF 2] 4(2) have "v \<in> {0x1000, 0x1001, 0x1002}"
        by blast
      then show ?thesis
        by (elim insertE emptyE) (simp_all add: wformattag_defs)
    next
      case 3
      from type_iii_range[OF 3] 4(3)
      have "v \<in> {0x2000, 0x2001, 0x2002, 0x2003, 0x2004, 0x2005, 0x2006}"
        by blast
      then show ?thesis
        by (elim insertE emptyE) (simp_all add: wformattag_defs)
    next
      case 4
      from wformattag_outside_ranges(2)[OF 4] show ?thesis by simp
    qed
  qed (simp_all add: wformattag_literal_at_table_length)
qed

text \<open>The first definition reads a table out of bounds at the three values and nowhere else.\<close>

lemma wformattag_generic_fault_iff:
  "desc_snowflake_dump_uac1_as_interface_wformattag_generic v indent = Inl Out_of_bounds
    \<longleftrightarrow> v = 6 \<or> v = 0x1003 \<or> v = 0x2007"
proof
  assume f: "desc_snowflake_dump_uac1_as_interface_wformattag_generic v indent = Inl Out_of_bounds"
  show "v = 6 \<or> v = 0x1003 \<or> v = 0x2007"
  proof (rule ccontr)
    assume "\<not> ?thesis"
    then have "desc_snowflake_dump_uac1_as_interface_wformattag_generic v indent
                 = desc_snowflake_dump_uac1_as_interface_wformattag_literal v indent"
      using wformattag_definitions_agree by blast
    with f wformattag_literal_total[of v indent] show False by auto
  qed
next
  assume "v = 6 \<or> v = 0x1003 \<or> v = 0x2007"
  then show "desc_snowflake_dump_uac1_as_interface_wformattag_generic v indent = Inl Out_of_bounds"
    by (elim disjE) (simp_all add: wformattag_generic_at_table_length)
qed

section \<open>Properties of the tables\<close>

lemmas desc_arrays_defs =
  desc_audio_ac_header_def desc_audio_ac_effect_unit_def desc_audio_ac_input_terminal_def
  desc_audio_ac_output_terminal_def desc_audio_ac_mixer_unit_def
  desc_audio_ac_selector_unit_def desc_audio_ac_processing_unit_def
  desc_audio_ac_feature_unit_def desc_audio_ac_extension_unit_def
  desc_audio_ac_clock_source_def desc_audio_ac_clock_selector_def
  desc_audio_ac_clock_multiplier_def desc_audio_ac_sample_rate_converter_def
  desc_audio_as_interface_def desc_audio_as_isochronous_audio_data_endpoint_def

lemmas field_tables_defs =
  desc_audio_1_ac_header_def desc_audio_2_ac_header_def
  desc_audio_2_ac_effect_unit_def
  desc_audio_1_ac_input_terminal_def desc_audio_2_ac_input_terminal_def
  desc_audio_1_ac_output_terminal_def desc_audio_2_ac_output_terminal_def
  desc_audio_1_ac_mixer_unit_def desc_audio_2_ac_mixer_unit_def
  desc_audio_1_ac_selector_unit_def desc_audio_2_ac_selector_unit_def
  desc_audio_1_ac_processing_unit_def desc_audio_2_ac_processing_unit_def
  desc_audio_1_ac_feature_unit_def desc_audio_2_ac_feature_unit_def
  desc_audio_1_ac_extension_unit_def desc_audio_2_ac_extension_unit_def
  desc_audio_2_ac_clock_source_def desc_audio_2_ac_clock_selector_def
  desc_audio_2_ac_clock_multiplier_def desc_audio_2_ac_sample_rate_converter_def
  desc_audio_1_as_interface_def desc_audio_2_as_interface_def
  desc_audio_1_as_isochronous_audio_data_endpoint_def
  desc_audio_2_as_isochronous_audio_data_endpoint_def

lemmas desc_entry_defs = desc_init_def array_open_def array_len1_def array_bits_def

subsection \<open>Schema registry\<close>

text \<open>Every array has an entry for each of the three protocol generations.\<close>

lemma registry_length: "length (registry kind) = 3"
  by (cases kind) (simp_all add: desc_arrays_defs)

lemma generation_index_in_registry: "generation_index gen < length (registry kind)"
  by (cases gen) (simp_all add: registry_length)

lemma lookup_nth: "lookup kind gen = registry kind ! generation_index gen"
  by (simp add: lookup_def Let_def generation_index_in_registry)

text \<open>
  Claim C4. The lookup returns the unsupported result for UAC3 (index 2) with every
  descriptor kind, and for UAC1 (index 0) with Clock Source, Clock Selector, Clock
  Multiplier and Sample Rate Converter. The lookup is a total function, and the index of a
  generation is below the length of every array (\<open>generation_index_in_registry\<close>).
\<close>

theorem lookup_unsupported:
  "(\<forall>kind. lookup kind UAC3 = None)
   \<and> lookup Clock_Source UAC1 = None
   \<and> lookup Clock_Selector UAC1 = None
   \<and> lookup Clock_Multiplier UAC1 = None
   \<and> lookup Sample_Rate_Converter UAC1 = None"
proof -
  have "lookup kind UAC3 = None" for kind
    by (cases kind) (simp_all add: lookup_def desc_arrays_defs)
  then show ?thesis
    by (simp add: lookup_def desc_arrays_defs)
qed

text \<open>
  Claim C10. The entry of the Effect Unit array for UAC1 (index 0) is \<^verbatim>\<open>NULL\<close>, so the
  lookup of Effect Unit at UAC1 returns the unsupported result, and rendering such a
  descriptor returns UnsupportedCombination.
\<close>

theorem effect_unit_uac1_unsupported:
  "desc_audio_ac_effect_unit ! generation_index UAC1 = None
   \<and> lookup Effect_Unit UAC1 = None
   \<and> render_descriptor p Effect_Unit UAC1 buffer = Inl UnsupportedCombination"
  by (simp add: lookup_def render_descriptor_def desc_audio_ac_effect_unit_def)

text \<open>All the combinations with no schema.\<close>

lemma no_schema_iff:
  "lookup kind gen = None \<longleftrightarrow>
     gen = UAC3 \<or>
     (gen = UAC1 \<and>
      kind \<in> {Effect_Unit, Clock_Source, Clock_Selector, Clock_Multiplier,
              Sample_Rate_Converter})"
  by (cases kind; cases gen) (simp_all add: lookup_def desc_arrays_defs)

subsection \<open>References to earlier fields\<close>

lemma earlier_only_nth:
  "earlier_only seen ds \<Longrightarrow> i < length ds \<Longrightarrow> n \<in> set (refs_of (ds ! i))
    \<Longrightarrow> n \<in> set seen \<union> set (map field (take i ds))"
proof (induction ds arbitrary: seen i)
  case Nil
  then show ?case by simp
next
  case (Cons d ds)
  show ?case
  proof (cases i)
    case 0
    with Cons.prems show ?thesis
      by (auto simp: list_all_iff)
  next
    case (Suc j)
    with Cons.prems
    have "earlier_only (seen @ [field d]) ds" "j < length ds" "n \<in> set (refs_of (ds ! j))"
      by simp_all
    from Cons.IH[OF this] Suc show ?thesis
      by auto
  qed
qed

lemma all_field_tables_earlier_only: "list_all (earlier_only []) all_field_tables"
  by (simp add: all_field_tables_def refs_of_def desc_entry_defs field_tables_defs)

text \<open>
  Claim C8. In every field table of the file, a name that the entry at position \<open>i\<close> gives
  in \<^verbatim>\<open>size_field\<close>, \<^verbatim>\<open>length_field1\<close> or \<^verbatim>\<open>length_field2\<close> is the name of one of the
  entries at the positions before \<open>i\<close>: no reference points forward or to the entry itself.
\<close>

theorem references_name_earlier_fields:
  assumes "schema \<in> set all_field_tables"
    and "i < length schema"
    and "n \<in> set (refs_of (schema ! i))"
  shows "n \<in> set (map field (take i schema))"
proof -
  from assms(1) all_field_tables_earlier_only have "earlier_only [] schema"
    by (simp add: list_all_iff)
  from earlier_only_nth[OF this assms(2,3)] show ?thesis
    by simp
qed

text \<open>
  Witness for C8: in the UAC1 Feature Unit table the entry at position 3 (\<open>bmaControls\<close>)
  refers to \<open>bControlSize\<close>, one of the three entries before it.
\<close>

theorem references_name_earlier_fields_witness:
  "desc_audio_1_ac_feature_unit \<in> set all_field_tables
   \<and> (3::nat) < length desc_audio_1_ac_feature_unit
   \<and> ''bControlSize'' \<in> set (refs_of (desc_audio_1_ac_feature_unit ! 3))
   \<and> ''bControlSize'' \<in> set (map field (take 3 desc_audio_1_ac_feature_unit))"
proof -
  have 1: "desc_audio_1_ac_feature_unit \<in> set all_field_tables"
    by (simp add: all_field_tables_def)
  have 2: "(3::nat) < length desc_audio_1_ac_feature_unit"
    by (simp add: desc_audio_1_ac_feature_unit_def)
  have 3: "''bControlSize'' \<in> set (refs_of (desc_audio_1_ac_feature_unit ! 3))"
    by (simp add: desc_audio_1_ac_feature_unit_def refs_of_def desc_entry_defs)
  from references_name_earlier_fields[OF 1 2 3] 1 2 3 show ?thesis
    by blast
qed

section \<open>Properties of the decoding engine\<close>

lemmas decode_defs =
  decode_def decode_field_def effective_width_def repetition_count_def resolve_def
  read_bytes_def interpret_value_def

text \<open>Unfolding a repetition count given as a numeral.\<close>

lemma decode_repetitions_numeral:
  "decode_repetitions p buffer d w (numeral k) c =
    (case read_bytes buffer (cursor c) w of
       Inl e \<Rightarrow> Inl e
     | Inr v \<Rightarrow>
        decode_repetitions p buffer d w (pred_numeral k)
          (c\<lparr>cursor := cursor c + w,
             known := known c @ [(field d, v)],
             out := out c @
               [\<lparr>f_name = field d, f_offset = cursor c, f_width = w, f_value = v,
                 f_rendering = interpret_value p d v\<rparr>]\<rparr>))"
  by (simp add: numeral_eq_Suc)

subsection \<open>Label tables\<close>

text \<open>
  An index at or beyond the length of a table has no label: a number from the table is
  rendered as \<open>undefined\<close>, and a bitmap from a table has at most one label per entry.
\<close>

lemma label_at_beyond: "length table \<le> i \<Longrightarrow> label_at table i = None"
  by (simp add: label_at_def)

lemma number_from_table_undefined:
  "type d = DESC_NUMBER_STRINGS \<Longrightarrow> length (number_strings d) \<le> v
    \<Longrightarrow> interpret_value p d v = Label ''undefined''"
  by (simp add: interpret_value_def label_at_beyond)

lemma length_set_bit_labels: "length (set_bit_labels table v) \<le> length table"
  by (induction table v rule: set_bit_labels.induct) (auto split: option.splits)

lemma set_bit_labels_beyond:
  "v mod 2 ^ length table = 0 \<Longrightarrow> set_bit_labels table v = []"
proof (induction table v rule: set_bit_labels.induct)
  case (1 v)
  then show ?case by simp
next
  case (2 l ls v)
  from "2.prems" have "2 * (v div 2 mod 2 ^ length ls) + v mod 2 = 0"
    by (simp add: mod_mult2_eq)
  then have "even v" and "v div 2 mod 2 ^ length ls = 0"
    by (simp_all add: even_iff_mod_2_eq_zero)
  then show ?case
    using "2.IH" by (simp split: option.splits)
qed


subsection \<open>Bytes consumed\<close>

lemma read_bytes_prefix:
  "pos + w \<le> length buffer \<Longrightarrow> read_bytes (buffer @ ext) pos w = read_bytes buffer pos w"
  by (simp add: read_bytes_def)

lemma read_bytes_within:
  "read_bytes buffer pos w = Inr v \<Longrightarrow> pos + w \<le> length buffer"
  by (simp add: read_bytes_def split: if_splits)

text \<open>
  The repetitions of a field advance the cursor by the effective width times the count
  and add one decoded entry per repetition.
\<close>

lemma decode_repetitions_cursor:
  "decode_repetitions p buffer d w n c = Inr c' \<Longrightarrow> cursor c' = cursor c + w * n"
proof (induction n arbitrary: c)
  case 0
  then show ?case by simp
next
  case (Suc n)
  then show ?case by (auto split: sum.splits)
qed

lemma decode_repetitions_out:
  "decode_repetitions p buffer d w n c = Inr c' \<Longrightarrow> length (out c') = length (out c) + n"
proof (induction n arbitrary: c)
  case 0
  then show ?case by simp
next
  case (Suc n)
  then show ?case by (auto split: sum.splits)
qed

lemma decode_field_span:
  assumes "decode_field p buffer d c = Inr c'"
    and "effective_width (known c) d = Inr w"
    and "repetition_count p (known c) d = Inr n"
  shows "cursor c' = cursor c + w * n \<and> length (out c') = length (out c) + n"
  using assms
  by (simp add: decode_field_def decode_repetitions_cursor decode_repetitions_out)

lemma decode_field_cursor:
  "decode_field p buffer d c = Inr c' \<Longrightarrow> cursor c \<le> cursor c'"
  by (auto simp: decode_field_def split: sum.splits dest: decode_repetitions_cursor)

subsection \<open>Every decoded entry lies inside the buffer\<close>

lemma decode_repetitions_within:
  "decode_repetitions p buffer d w n c = Inr c' \<Longrightarrow>
   \<forall>e \<in> set (out c). f_offset e + f_width e \<le> length buffer \<Longrightarrow>
   \<forall>e \<in> set (out c'). f_offset e + f_width e \<le> length buffer"
proof (induction n arbitrary: c)
  case 0
  then show ?case by simp
next
  case (Suc n)
  from Suc.prems(1) obtain v where
    rd: "read_bytes buffer (cursor c) w = Inr v" and
    rest: "decode_repetitions p buffer d w n
      (c\<lparr>cursor := cursor c + w, known := known c @ [(field d, v)],
         out := out c @
           [\<lparr>f_name = field d, f_offset = cursor c, f_width = w, f_value = v,
             f_rendering = interpret_value p d v\<rparr>]\<rparr>) = Inr c'"
    by (auto split: sum.splits)
  from read_bytes_within[OF rd] Suc.prems(2) show ?case
    by (intro Suc.IH[OF rest]) auto
qed

lemma decode_fields_within:
  "decode_fields p buffer ds c = Inr c' \<Longrightarrow>
   \<forall>e \<in> set (out c). f_offset e + f_width e \<le> length buffer \<Longrightarrow>
   \<forall>e \<in> set (out c'). f_offset e + f_width e \<le> length buffer"
proof (induction ds arbitrary: c)
  case Nil
  then show ?case by simp
next
  case (Cons d ds)
  from Cons.prems(1) obtain c1 where
    f: "decode_field p buffer d c = Inr c1" and
    rest: "decode_fields p buffer ds c1 = Inr c'"
    by (auto split: sum.splits)
  from f Cons.prems(2) have "\<forall>e \<in> set (out c1). f_offset e + f_width e \<le> length buffer"
    by (auto simp: decode_field_def split: sum.splits dest!: decode_repetitions_within)
  from Cons.IH[OF rest this] show ?case .
qed

lemma decode_within_buffer:
  "decode p schema buffer = Inr r \<Longrightarrow> e \<in> set (r_fields r)
    \<Longrightarrow> f_offset e + f_width e \<le> length buffer"
  using decode_fields_within[of p buffer schema "\<lparr>cursor = 0, known = [], out = []\<rparr>"]
  by (auto simp: decode_def split: sum.splits)

subsection \<open>A buffer that ends too early\<close>

text \<open>
  Decoding a buffer and decoding a longer buffer that starts with it go the same way as
  long as the reads stay inside the shorter one; the first read that does not fails.
\<close>

lemma decode_repetitions_same:
  "decode_repetitions p (buffer @ ext) d w n c = Inr c' \<Longrightarrow> cursor c' \<le> length buffer
    \<Longrightarrow> decode_repetitions p buffer d w n c = Inr c'"
proof (induction n arbitrary: c)
  case 0
  then show ?case by simp
next
  case (Suc n)
  from Suc.prems(1) obtain v where
    rd: "read_bytes (buffer @ ext) (cursor c) w = Inr v" and
    rest: "decode_repetitions p (buffer @ ext) d w n
      (c\<lparr>cursor := cursor c + w, known := known c @ [(field d, v)],
         out := out c @
           [\<lparr>f_name = field d, f_offset = cursor c, f_width = w, f_value = v,
             f_rendering = interpret_value p d v\<rparr>]\<rparr>) = Inr c'"
    by (auto split: sum.splits)
  from decode_repetitions_cursor[OF rest] Suc.prems(2) have "cursor c + w \<le> length buffer"
    by simp
  then have "read_bytes buffer (cursor c) w = Inr v"
    using rd by (simp add: read_bytes_prefix)
  with Suc.IH[OF rest Suc.prems(2)] show ?case
    by simp
qed

lemma decode_repetitions_underrun:
  "decode_repetitions p (buffer @ ext) d w n c = Inr c' \<Longrightarrow> length buffer < cursor c'
    \<Longrightarrow> cursor c \<le> length buffer
    \<Longrightarrow> decode_repetitions p buffer d w n c = Inl BufferUnderrun"
proof (induction n arbitrary: c)
  case 0
  then show ?case by simp
next
  case (Suc n)
  from Suc.prems(1) obtain v where
    rd: "read_bytes (buffer @ ext) (cursor c) w = Inr v" and
    rest: "decode_repetitions p (buffer @ ext) d w n
      (c\<lparr>cursor := cursor c + w, known := known c @ [(field d, v)],
         out := out c @
           [\<lparr>f_name = field d, f_offset = cursor c, f_width = w, f_value = v,
             f_rendering = interpret_value p d v\<rparr>]\<rparr>) = Inr c'"
    by (auto split: sum.splits)
  show ?case
  proof (cases "cursor c + w \<le> length buffer")
    case True
    then have "read_bytes buffer (cursor c) w = Inr v"
      using rd by (simp add: read_bytes_prefix)
    moreover from Suc.IH[OF rest Suc.prems(2)] True
    have "decode_repetitions p buffer d w n
      (c\<lparr>cursor := cursor c + w, known := known c @ [(field d, v)],
         out := out c @
           [\<lparr>f_name = field d, f_offset = cursor c, f_width = w, f_value = v,
             f_rendering = interpret_value p d v\<rparr>]\<rparr>) = Inl BufferUnderrun"
      by simp
    ultimately show ?thesis
      by simp
  next
    case False
    then show ?thesis
      by (simp add: read_bytes_def)
  qed
qed

lemma decode_field_same:
  "decode_field p (buffer @ ext) d c = Inr c' \<Longrightarrow> cursor c' \<le> length buffer
    \<Longrightarrow> decode_field p buffer d c = Inr c'"
  by (auto simp: decode_field_def split: sum.splits dest: decode_repetitions_same)

lemma decode_field_underrun:
  "decode_field p (buffer @ ext) d c = Inr c' \<Longrightarrow> length buffer < cursor c'
    \<Longrightarrow> cursor c \<le> length buffer
    \<Longrightarrow> decode_field p buffer d c = Inl BufferUnderrun"
  by (auto simp: decode_field_def split: sum.splits dest: decode_repetitions_underrun)

lemma decode_fields_underrun:
  "decode_fields p (buffer @ ext) ds c = Inr c' \<Longrightarrow> length buffer < cursor c'
    \<Longrightarrow> cursor c \<le> length buffer
    \<Longrightarrow> decode_fields p buffer ds c = Inl BufferUnderrun"
proof (induction ds arbitrary: c)
  case Nil
  then show ?case by simp
next
  case (Cons d ds)
  from Cons.prems(1) obtain c1 where
    f: "decode_field p (buffer @ ext) d c = Inr c1" and
    rest: "decode_fields p (buffer @ ext) ds c1 = Inr c'"
    by (auto split: sum.splits)
  show ?case
  proof (cases "cursor c1 \<le> length buffer")
    case True
    from decode_field_same[OF f True] Cons.IH[OF rest Cons.prems(2) True]
    show ?thesis by simp
  next
    case False
    then have "length buffer < cursor c1"
      by simp
    from decode_field_underrun[OF f this Cons.prems(3)]
    show ?thesis by simp
  qed
qed

text \<open>
  Claim C9. Let a schema need more bytes than a buffer holds: decoding some buffer that
  continues it succeeds and consumes more bytes than the buffer has. Then decoding the
  buffer itself fails with BufferUnderrun. The result is the error alone, with no decoded
  record: nothing of the output is returned. Bytes are read by \<open>read_bytes\<close> only, which
  checks the range first, and every entry of a decoded record lies inside the buffer
  (\<open>decode_within_buffer\<close>).
\<close>

theorem decode_short_buffer_underrun:
  assumes "decode p schema (buffer @ ext) = Inr r"
    and "length buffer < r_consumed r"
  shows "decode p schema buffer = Inl BufferUnderrun"
proof -
  from assms(1) obtain c where
    c: "decode_fields p (buffer @ ext) schema \<lparr>cursor = 0, known = [], out = []\<rparr> = Inr c"
    and r: "r = \<lparr>r_fields = out c, r_consumed = cursor c\<rparr>"
    by (auto simp: decode_def split: sum.splits)
  from r assms(2) have "length buffer < cursor c"
    by simp
  from decode_fields_underrun[OF c this] show ?thesis
    by (simp add: decode_def)
qed

text \<open>
  Witness for C9: the UAC2 Clock Source schema needs five bytes; the five-byte descriptor
  decodes, and its first two bytes alone give BufferUnderrun.
\<close>

theorem decode_short_buffer_underrun_witness:
  "(\<exists>r. decode (params0 Generic_range) desc_audio_2_ac_clock_source
           ([0x01, 0x03] @ [0x01, 0x00, 0x00]) = Inr r
        \<and> length [0x01, 0x03 :: byte] < r_consumed r)
   \<and> decode (params0 Generic_range) desc_audio_2_ac_clock_source [0x01, 0x03]
       = Inl BufferUnderrun"
proof -
  have "\<exists>r. decode (params0 Generic_range) desc_audio_2_ac_clock_source
              ([0x01, 0x03] @ [0x01, 0x00, 0x00]) = Inr r
           \<and> length [0x01, 0x03 :: byte] < r_consumed r"
    by (simp add: decode_defs desc_entry_defs desc_audio_2_ac_clock_source_def)
  then obtain r where
    1: "decode (params0 Generic_range) desc_audio_2_ac_clock_source
          ([0x01, 0x03] @ [0x01, 0x00, 0x00]) = Inr r"
    and 2: "length [0x01, 0x03 :: byte] < r_consumed r"
    by blast
  from decode_short_buffer_underrun[OF 1 2] 1 2 show ?thesis
    by blast
qed

section \<open>Scenarios\<close>

lemmas record_defs = entries_of_def repetitions_def bytes_consumed_def rendered_def

text \<open>
  Claim C1, as the tables have it. Decoding the UAC2 Clock Source descriptor bytes
  01 03 01 00 00 renders bmAttributes (0x03) as \<open>Internal programmable clock\<close>: bits 0 and 1
  are 0b11 and select index 3 of \<open>uac2_clk_src_bmattr\<close>, which is \<open>Internal programmable\<close>
  (\<open>Internal variable\<close> is index 2), and bit 2 is clear, so the qualifier is the empty
  string. bmControls (0x01) has \<open>Clock Frequency\<close> present, read-only (first group of two
  bits 0b01), and \<open>Clock Validity\<close> not present.
\<close>

theorem clock_source_scenario:
  "rendered (decode p desc_audio_2_ac_clock_source [0x01, 0x03, 0x01, 0x00, 0x00])
       ''bmAttributes''
     = Inr [Custom (Inr ('' Internal programmable clock '' @ ''\<newline>''))]
   \<and> rendered (decode p desc_audio_2_ac_clock_source [0x01, 0x03, 0x01, 0x00, 0x00])
       ''bmControls''
     = Inr [Controls_2 [(''Clock Frequency'', Read_only), (''Clock Validity'', Not_present)]]
   \<and> (0x03 :: ull) AND 0x3 = 3
   \<and> (0x03 :: ull) AND 0x4 = 0
   \<and> array_read uac2_clk_src_bmattr 3 = Inr (Some ''Internal programmable'')
   \<and> array_read uac2_clk_src_bmattr 2 = Inr (Some ''Internal variable'')"
  by (simp add: decode_defs desc_entry_defs record_defs desc_audio_2_ac_clock_source_def
      desc_snowflake_dump_uac2_clk_src_bmattr_def array_read_def fmt_s_def
      uac2_clk_src_bmattr_def uac2_clock_source_bmcontrols_def access_of_def)

text \<open>
  Counterexample to C1 as stated: for those bytes the rendering of bmAttributes is
  \<open>Internal programmable clock\<close>, not \<open>Internal variable clock\<close>, and the entry at index 3
  of the table is not \<open>Internal variable\<close>.
\<close>

theorem clock_source_not_internal_variable:
  "rendered (decode (params0 Generic_range) desc_audio_2_ac_clock_source
               [0x01, 0x03, 0x01, 0x00, 0x00]) ''bmAttributes''
     = Inr [Custom (Inr ('' Internal programmable clock '' @ ''\<newline>''))]
   \<and> rendered (decode (params0 Generic_range) desc_audio_2_ac_clock_source
               [0x01, 0x03, 0x01, 0x00, 0x00]) ''bmAttributes''
     \<noteq> Inr [Custom (Inr ('' Internal variable clock '' @ ''\<newline>''))]
   \<and> desc_snowflake_dump_uac2_clk_src_bmattr 0x03 0
     \<noteq> Inr ('' Internal variable clock '' @ ''\<newline>'')
   \<and> array_read uac2_clk_src_bmattr ((0x03 :: ull) AND 0x3) \<noteq> Inr (Some ''Internal variable'')"
  by (simp add: decode_defs desc_entry_defs record_defs desc_audio_2_ac_clock_source_def
      desc_snowflake_dump_uac2_clk_src_bmattr_def array_read_def fmt_s_def
      uac2_clk_src_bmattr_def uac2_clock_source_bmcontrols_def access_of_def)

text \<open>
  Claim C5. In every UAC2 Mixer Unit descriptor with bNrInPins = 2 and bNrChannels = 3,
  whatever its other bytes, the bmMixerControls array has 2 * 3 = 6 repetitions of one
  byte: it takes the six bytes at the offsets 10 to 15, and the next field, bmControls,
  starts at offset 16.
\<close>

theorem mixer_unit_scenario:
  "\<exists>r. decode p desc_audio_2_ac_mixer_unit
         ([bUnitID, 2, s0, s1, 3, c0, c1, c2, c3, iChannelNames,
           m0, m1, m2, m3, m4, m5, bmControls, iMixer] @ rest) = Inr r
     \<and> map f_value (entries_of r ''bNrInPins'') = [2]
     \<and> map f_value (entries_of r ''bNrChannels'') = [3]
     \<and> repetitions r ''bmMixerControls'' = 6
     \<and> bytes_consumed r ''bmMixerControls'' = 6
     \<and> map f_offset (entries_of r ''bmMixerControls'') = [10, 11, 12, 13, 14, 15]
     \<and> map f_offset (entries_of r ''bmControls'') = [16]"
  by (simp add: decode_defs desc_entry_defs record_defs desc_audio_2_ac_mixer_unit_def
      decode_repetitions_numeral)

text \<open>
  Claim C6. In a UAC1 Feature Unit descriptor with bControlSize = 2, the controls bytes
  03 00 and one repetition of bmaControls, the field is read with the width 2 that
  bControlSize gave, takes exactly 2 bytes, and is rendered with the controls \<open>Mute\<close> and
  \<open>Volume\<close> (bits 0 and 1) present and no other; iFeature follows at offset 5.
\<close>

theorem feature_unit_scenario:
  "\<exists>r. decode (p\<lparr>p_fixed_count := (p_fixed_count p)(''bmaControls'' := 1)\<rparr>)
         desc_audio_1_ac_feature_unit
         ([bUnitID, bSourceID, 2, 0x03, 0x00, iFeature] @ rest) = Inr r
     \<and> map f_value (entries_of r ''bControlSize'') = [2]
     \<and> repetitions r ''bmaControls'' = 1
     \<and> map f_width (entries_of r ''bmaControls'') = [2]
     \<and> bytes_consumed r ''bmaControls'' = 2
     \<and> map f_rendering (entries_of r ''bmaControls'') = [Controls_1 [''Mute'', ''Volume'']]
     \<and> map f_offset (entries_of r ''iFeature'') = [5]"
  by (simp add: decode_defs desc_entry_defs record_defs desc_audio_1_ac_feature_unit_def
      decode_repetitions_numeral uac_feature_unit_bmcontrols_def)

end
